theory Spec2Isabelle
  imports Main "HOL-Library.Word" "HOL-Library.Sublist" "HOL-Library.AList"
begin

section \<open>The libdns provider for G-Core DNS\<close>

text \<open>
  The development follows the current revision of \<^verbatim>\<open>provider.go\<close> (the one that defines
  \<^verbatim>\<open>qualityRecordNames\<close> and \<^verbatim>\<open>unqualifyRecordNames\<close>). The provider is glue between two
  external packages: \<^verbatim>\<open>github.com/libdns/libdns\<close> (records and name helpers) and the vendor
  SDK \<^verbatim>\<open>gcore-dns-sdk-go\<close> (the HTTP client). Neither belongs to the repository, so both
  enter the model as parameters: a record of library functions and a record of client
  methods over an arbitrary vendor state. Every theorem holds for all of them; concrete
  instances appear only where a statement is evaluated on an input.
\<close>

subsection \<open>Data\<close>

text \<open>\<^verbatim>\<open>time.Duration\<close> is an \<^verbatim>\<open>int64\<close> of nanoseconds; Go's \<^verbatim>\<open>int\<close> is taken at 64 bits.\<close>

type_synonym Duration = "64 word"

text \<open>\<^verbatim>\<open>libdns.RR\<close>: the untyped record with its four fields.\<close>

record RR =
  RR_Name :: string
  RR_TTL :: Duration
  RR_Type :: string
  RR_Data :: string

text \<open>
  The implementations of the interface \<^verbatim>\<open>libdns.Record\<close> that the provider tells apart.
  The arguments of each constructor are the struct's fields in the order the source
  writes them; \<^verbatim>\<open>netip.Addr\<close> is carried as its textual form. \<open>Opaque_Record\<close> stands for
  any other implementation (\<^verbatim>\<open>libdns.CAA\<close>, \<^verbatim>\<open>libdns.ServiceBinding\<close>, a caller's own type).
\<close>

datatype Record =
    RR_Record RR
  | Address string Duration string
  | CNAME string Duration string
  | TXT string Duration string
  | MX string Duration "16 word" string
  | NS string Duration string
  | SRV string Duration string string "16 word" "16 word" string "16 word"
  | Opaque_Record RR

text \<open>
  What the provider calls from libdns: \<^verbatim>\<open>AbsoluteName\<close>, \<^verbatim>\<open>RelativeName\<close>, the method
  \<^verbatim>\<open>Record.RR()\<close>, \<^verbatim>\<open>RR.Parse()\<close> (\<open>None\<close> when it returns an error), and from the standard
  library \<^verbatim>\<open>int(d.Seconds())\<close>, which goes through \<^verbatim>\<open>float64\<close>.
\<close>

record Libdns =
  AbsoluteName :: "string \<Rightarrow> string \<Rightarrow> string"
  RelativeName :: "string \<Rightarrow> string \<Rightarrow> string"
  RR :: "Record \<Rightarrow> RR"
  Parse :: "RR \<Rightarrow> Record option"
  Seconds :: "Duration \<Rightarrow> 64 word"

subsection \<open>Name qualification\<close>

text \<open>
  \<^verbatim>\<open>qualityRecordNames(record, zone)\<close>: parse the record; on a parse error return it as it
  is; for the six shapes rebuild the struct with the absolute name and every other field
  copied; for anything else return the record as it is. (The two \<^verbatim>\<open>log.Printf\<close> calls
  write to the process log only and are left out.)
\<close>

definition qualityRecordNames :: "Libdns \<Rightarrow> Record \<Rightarrow> string \<Rightarrow> Record" where
  "qualityRecordNames lib record zone =
     (case Parse lib (RR lib record) of
        None \<Rightarrow> record
      | Some rr \<Rightarrow>
          (case rr of
             Address name ttl ip \<Rightarrow> Address (AbsoluteName lib name zone) ttl ip
           | CNAME name ttl target \<Rightarrow> CNAME (AbsoluteName lib name zone) ttl target
           | TXT name ttl txt \<Rightarrow> TXT (AbsoluteName lib name zone) ttl txt
           | MX name ttl preference target \<Rightarrow>
               MX (AbsoluteName lib name zone) ttl preference target
           | NS name ttl target \<Rightarrow> NS (AbsoluteName lib name zone) ttl target
           | SRV name ttl service transport priority weight target port \<Rightarrow>
               SRV (AbsoluteName lib name zone) ttl service transport priority weight
                 target port
           | _ \<Rightarrow> record))"

definition unqualifyRecordNames :: "Libdns \<Rightarrow> Record \<Rightarrow> string \<Rightarrow> Record" where
  "unqualifyRecordNames lib record zone =
     (case Parse lib (RR lib record) of
        None \<Rightarrow> record
      | Some rr \<Rightarrow>
          (case rr of
             Address name ttl ip \<Rightarrow> Address (RelativeName lib name zone) ttl ip
           | CNAME name ttl target \<Rightarrow> CNAME (RelativeName lib name zone) ttl target
           | TXT name ttl txt \<Rightarrow> TXT (RelativeName lib name zone) ttl txt
           | MX name ttl preference target \<Rightarrow>
               MX (RelativeName lib name zone) ttl preference target
           | NS name ttl target \<Rightarrow> NS (RelativeName lib name zone) ttl target
           | SRV name ttl service transport priority weight target port \<Rightarrow>
               SRV (RelativeName lib name zone) ttl service transport priority weight
                 target port
           | _ \<Rightarrow> record))"

subsection \<open>The vendor SDK\<close>

text \<open>
  The fields of the SDK's structs that the provider reads or writes. A \<^verbatim>\<open>ResourceRecord\<close>
  holds its content as \<^verbatim>\<open>[]any\<close>; the provider itself only ever stores one string there.
\<close>

datatype any = Any_string string | Any_number int

record ResourceRecord =
  Content :: "any list"
  Enabled :: bool

record RRSet =
  RRSet_Type :: string
  RRSet_TTL :: "64 word"
  RRSet_Records :: "ResourceRecord list"

record ZoneRecord =
  ZoneRecord_Name :: string
  ZoneRecord_Type :: string
  ZoneRecord_TTL :: "64 word"

record Zone =
  Zone_Records :: "ZoneRecord list"

text \<open>
  The client's four methods, as functions of the vendor's state \<open>'s\<close> (the zone data
  behind the HTTP API, whatever it is). An error is carried by its message, the string
  \<^verbatim>\<open>err.Error()\<close> returns. \<^verbatim>\<open>cli.RRSet\<close> is always called with limit \<^verbatim>\<open>-1\<close> and offset
  \<^verbatim>\<open>0\<close>. \<^verbatim>\<open>ContentToString\<close> is the SDK's method on \<^verbatim>\<open>ResourceRecord\<close>.
\<close>

record 's Client =
  Zone :: "string \<Rightarrow> 's \<Rightarrow> (string + Zone) \<times> 's"
  RRSet :: "string \<Rightarrow> string \<Rightarrow> string \<Rightarrow> 's \<Rightarrow> (string + RRSet) \<times> 's"
  UpdateRRSet :: "string \<Rightarrow> string \<Rightarrow> string \<Rightarrow> RRSet \<Rightarrow> 's \<Rightarrow> string option \<times> 's"
  DeleteRRSetRecord ::
    "string \<Rightarrow> string \<Rightarrow> string \<Rightarrow> string \<Rightarrow> 's \<Rightarrow> string option \<times> 's"
  ContentToString :: "ResourceRecord \<Rightarrow> string"

text \<open>
  The provider runs in a world made of the vendor's state and the list of vendor calls
  issued so far, oldest first. The list is there so that theorems can speak about which
  calls an operation makes and with which arguments.
\<close>

datatype Call =
    Call_Zone string
  | Call_RRSet string string string
  | Call_UpdateRRSet string string string RRSet
  | Call_DeleteRRSetRecord string string string string

type_synonym 's world = "'s \<times> Call list"

definition cli_Zone :: "'s Client \<Rightarrow> string \<Rightarrow> 's world \<Rightarrow> (string + Zone) \<times> 's world" where
  "cli_Zone cli zone w =
     (case Zone cli zone (fst w) of
        (res, s) \<Rightarrow> (res, (s, snd w @ [Call_Zone zone])))"

definition cli_RRSet ::
  "'s Client \<Rightarrow> string \<Rightarrow> string \<Rightarrow> string \<Rightarrow> 's world \<Rightarrow> (string + RRSet) \<times> 's world" where
  "cli_RRSet cli zone name type w =
     (case RRSet cli zone name type (fst w) of
        (res, s) \<Rightarrow> (res, (s, snd w @ [Call_RRSet zone name type])))"

definition cli_UpdateRRSet ::
  "'s Client \<Rightarrow> string \<Rightarrow> string \<Rightarrow> string \<Rightarrow> RRSet \<Rightarrow> 's world \<Rightarrow> string option \<times> 's world" where
  "cli_UpdateRRSet cli zone name type rrSet w =
     (case UpdateRRSet cli zone name type rrSet (fst w) of
        (res, s) \<Rightarrow> (res, (s, snd w @ [Call_UpdateRRSet zone name type rrSet])))"

definition cli_DeleteRRSetRecord ::
  "'s Client \<Rightarrow> string \<Rightarrow> string \<Rightarrow> string \<Rightarrow> string \<Rightarrow> 's world \<Rightarrow> string option \<times> 's world" where
  "cli_DeleteRRSetRecord cli zone name type content w =
     (case DeleteRRSetRecord cli zone name type content (fst w) of
        (res, s) \<Rightarrow> (res, (s, snd w @ [Call_DeleteRRSetRecord zone name type content])))"

subsection \<open>Results\<close>

text \<open>
  An operation returns the pair \<^verbatim>\<open>([]libdns.Record, error)\<close>: \<^verbatim>\<open>return nil, err\<close> is
  \<open>([], Some err)\<close> and \<^verbatim>\<open>return records, nil\<close> is \<open>(records, None)\<close>. The only error the
  provider makes itself is \<^verbatim>\<open>fmt.Errorf("failed to delete record %v", record)\<close>; every
  other one is the vendor's, passed on.
\<close>

datatype error = VendorError string | FailedToDelete Record

type_synonym ret = "Record list \<times> error option"

text \<open>\<^verbatim>\<open>GetRecords\<close> can also end in a run-time panic (a method call on a nil interface).\<close>

datatype 'a outcome = Returned 'a | Panicked

text \<open>\<^verbatim>\<open>strings.Contains(s, substr)\<close>.\<close>

fun Contains :: "string \<Rightarrow> string \<Rightarrow> bool" where
  "Contains [] substr = (substr = [])"
| "Contains (c # s) substr = (prefix substr (c # s) \<or> Contains s substr)"

subsection \<open>GetRecords\<close>

text \<open>
  The first loop of \<^verbatim>\<open>GetRecords\<close>. \<open>records\<close> is the slice made with the length of the
  zone's index, every slot nil (\<open>None\<close>); \<open>i\<close> is the loop index, always within the slice.
  The inner loop writes slot \<open>i\<close> once per value of the fetched set. The TTL is the
  \<^verbatim>\<open>int64\<close> product \<^verbatim>\<open>time.Duration(gcoreRecord.TTL) * time.Second\<close>, which wraps.
\<close>

fun GetRecords_fetch ::
  "'s Client \<Rightarrow> string \<Rightarrow> nat \<Rightarrow> ZoneRecord list \<Rightarrow> Record option list \<Rightarrow> 's world
     \<Rightarrow> (string + Record option list) \<times> 's world" where
  "GetRecords_fetch cli zone i [] records w = (Inr records, w)"
| "GetRecords_fetch cli zone i (gcoreRecord # rest) records w =
     (case cli_RRSet cli zone (ZoneRecord_Name gcoreRecord) (ZoneRecord_Type gcoreRecord) w of
        (Inl err, w') \<Rightarrow> (Inl err, w')
      | (Inr rrSets, w') \<Rightarrow>
          GetRecords_fetch cli zone (Suc i) rest
            (fold (\<lambda>rrSet recs. recs[i := Some (RR_Record
                     \<lparr>RR_Name = ZoneRecord_Name gcoreRecord,
                      RR_TTL = ZoneRecord_TTL gcoreRecord * 1000000000,
                      RR_Type = ZoneRecord_Type gcoreRecord,
                      RR_Data = ContentToString cli rrSet\<rparr>)])
               (RRSet_Records rrSets) records)
            w')"

text \<open>
  The second loop: \<^verbatim>\<open>records[i] = unqualifyRecordNames(record, zone)\<close>. On a slot that is
  still nil, \<^verbatim>\<open>record.RR()\<close> panics (\<open>None\<close>).
\<close>

fun GetRecords_unqualify :: "Libdns \<Rightarrow> string \<Rightarrow> Record option list \<Rightarrow> Record list option" where
  "GetRecords_unqualify lib zone [] = Some []"
| "GetRecords_unqualify lib zone (None # rest) = None"
| "GetRecords_unqualify lib zone (Some record # rest) =
     (case GetRecords_unqualify lib zone rest of
        None \<Rightarrow> None
      | Some rs \<Rightarrow> Some (unqualifyRecordNames lib record zone # rs))"

definition GetRecords :: "'s Client \<Rightarrow> Libdns \<Rightarrow> string \<Rightarrow> 's world \<Rightarrow> ret outcome \<times> 's world" where
  "GetRecords cli lib zone w =
     (case cli_Zone cli zone w of
        (Inl err, w1) \<Rightarrow> (Returned ([], Some (VendorError err)), w1)
      | (Inr gcoreZone, w1) \<Rightarrow>
          (case GetRecords_fetch cli zone 0 (Zone_Records gcoreZone)
                  (replicate (length (Zone_Records gcoreZone)) None) w1 of
             (Inl err, w2) \<Rightarrow> (Returned ([], Some (VendorError err)), w2)
           | (Inr records, w2) \<Rightarrow>
               (case GetRecords_unqualify lib zone records of
                  None \<Rightarrow> (Panicked, w2)
                | Some rs \<Rightarrow> (Returned (rs, None), w2))))"

subsection \<open>Merging a value into a fetched set\<close>

text \<open>
  The loop shared by \<^verbatim>\<open>AppendRecords\<close> and \<^verbatim>\<open>SetRecords\<close>:
  \<^verbatim>\<open>for _, rr := range rrSet.Records { if rr.ContentToString() == data { continue };
  rrSet.Records = append(rrSet.Records, ResourceRecord{Content: []any{data}, Enabled: true}) }\<close>.
  Go evaluates the range expression once, so the loop visits the entries the set had when
  it was fetched, while the appends go to the set being built.
\<close>

definition merge_step :: "'s Client \<Rightarrow> string \<Rightarrow> ResourceRecord \<Rightarrow> RRSet \<Rightarrow> RRSet" where
  "merge_step cli content rr rrSet =
     (if ContentToString cli rr = content then rrSet
      else rrSet\<lparr>RRSet_Records :=
             RRSet_Records rrSet @ [\<lparr>Content = [Any_string content], Enabled = True\<rparr>]\<rparr>)"

definition merge_loop :: "'s Client \<Rightarrow> string \<Rightarrow> RRSet \<Rightarrow> RRSet" where
  "merge_loop cli content rrSet = fold (merge_step cli content) (RRSet_Records rrSet) rrSet"

subsection \<open>AppendRecords\<close>

text \<open>
  The first loop of the three writing operations:
  \<^verbatim>\<open>for i, record := range records { records[i] = qualityRecordNames(record, zone) }\<close>.
  It writes into the slice it was given, whose backing array is the caller's; the
  operations below therefore also return the content of that slice.
\<close>

definition qualify_in_place :: "Libdns \<Rightarrow> string \<Rightarrow> Record list \<Rightarrow> Record list" where
  "qualify_in_place lib zone records = map (\<lambda>record. qualityRecordNames lib record zone) records"

text \<open>
  \<^verbatim>\<open>recordsByType[record.RR().Type] = append(recordsByType[record.RR().Type], record)\<close>: a
  key that is absent reads as the nil slice.
\<close>

definition group_step :: "Libdns \<Rightarrow> Record \<Rightarrow> (string \<rightharpoonup> Record list) \<Rightarrow> (string \<rightharpoonup> Record list)" where
  "group_step lib record recordsByType =
     recordsByType(RR_Type (RR lib record) \<mapsto>
       (case recordsByType (RR_Type (RR lib record)) of None \<Rightarrow> [] | Some rs \<Rightarrow> rs) @ [record])"

definition group_by_type :: "Libdns \<Rightarrow> Record list \<Rightarrow> (string \<rightharpoonup> Record list)" where
  "group_by_type lib records = fold (group_step lib) records Map.empty"

text \<open>
  The body of the inner loop, for one record of the group \<open>recordType\<close>. \<open>Inl\<close> is
  \<^verbatim>\<open>return nil, err\<close>; \<open>Inr\<close> carries \<^verbatim>\<open>addedRecords\<close> into the next iteration.
\<close>

definition AppendRecords_body ::
  "'s Client \<Rightarrow> Libdns \<Rightarrow> string \<Rightarrow> string \<Rightarrow> Record \<Rightarrow> Record list \<Rightarrow> 's world
     \<Rightarrow> (error + Record list) \<times> 's world" where
  "AppendRecords_body cli lib zone recordType record addedRecords w =
     (case cli_RRSet cli zone (RR_Name (RR lib record)) recordType w of
        (Inl err, w1) \<Rightarrow>
          if Contains err ''404: record is not found'' then
            (case cli_UpdateRRSet cli zone (RR_Name (RR lib record)) recordType
                    \<lparr>RRSet_Type = recordType,
                     RRSet_TTL = Seconds lib (RR_TTL (RR lib record)),
                     RRSet_Records =
                       [\<lparr>Content = [Any_string (RR_Data (RR lib record))], Enabled = True\<rparr>]\<rparr>
                    w1 of
               (Some err2, w2) \<Rightarrow> (Inl (VendorError err2), w2)
             | (None, w2) \<Rightarrow> (Inr (addedRecords @ [record]), w2))
          else (Inl (VendorError err), w1)
      | (Inr rrSet, w1) \<Rightarrow>
          (case cli_UpdateRRSet cli zone (RR_Name (RR lib record)) recordType
                  (merge_loop cli (RR_Data (RR lib record)) rrSet) w1 of
             (Some err, w2) \<Rightarrow> (Inl (VendorError err), w2)
           | (None, w2) \<Rightarrow> (Inr (addedRecords @ [record]), w2)))"

fun AppendRecords_records ::
  "'s Client \<Rightarrow> Libdns \<Rightarrow> string \<Rightarrow> string \<Rightarrow> Record list \<Rightarrow> Record list \<Rightarrow> 's world
     \<Rightarrow> (error + Record list) \<times> 's world" where
  "AppendRecords_records cli lib zone recordType [] addedRecords w = (Inr addedRecords, w)"
| "AppendRecords_records cli lib zone recordType (record # rest) addedRecords w =
     (case AppendRecords_body cli lib zone recordType record addedRecords w of
        (Inl err, w') \<Rightarrow> (Inl err, w')
      | (Inr addedRecords', w') \<Rightarrow>
          AppendRecords_records cli lib zone recordType rest addedRecords' w')"

text \<open>
  The outer loop, \<^verbatim>\<open>for recordType, records := range recordsByType\<close>. Go leaves the order
  in which a map is ranged over unspecified; \<open>order\<close> is the order this run takes, a list
  of the map's keys.
\<close>

fun AppendRecords_types ::
  "'s Client \<Rightarrow> Libdns \<Rightarrow> string \<Rightarrow> (string \<rightharpoonup> Record list) \<Rightarrow> string list \<Rightarrow> Record list
     \<Rightarrow> 's world \<Rightarrow> (error + Record list) \<times> 's world" where
  "AppendRecords_types cli lib zone recordsByType [] addedRecords w = (Inr addedRecords, w)"
| "AppendRecords_types cli lib zone recordsByType (recordType # rest) addedRecords w =
     (case AppendRecords_records cli lib zone recordType
             (case recordsByType recordType of None \<Rightarrow> [] | Some rs \<Rightarrow> rs) addedRecords w of
        (Inl err, w') \<Rightarrow> (Inl err, w')
      | (Inr addedRecords', w') \<Rightarrow>
          AppendRecords_types cli lib zone recordsByType rest addedRecords' w')"

text \<open>
  The result of a writing operation: what it returns, the caller's slice as the call
  leaves it, and the world.
\<close>

definition AppendRecords ::
  "'s Client \<Rightarrow> Libdns \<Rightarrow> string list \<Rightarrow> string \<Rightarrow> Record list \<Rightarrow> 's world
     \<Rightarrow> ret \<times> Record list \<times> 's world" where
  "AppendRecords cli lib order zone records w =
     (let records' = qualify_in_place lib zone records in
      case AppendRecords_types cli lib zone (group_by_type lib records') order [] w of
        (Inl err, w') \<Rightarrow> (([], Some err), records', w')
      | (Inr addedRecords, w') \<Rightarrow>
          ((map (\<lambda>record. unqualifyRecordNames lib record zone) addedRecords, None),
           records', w'))"

subsection \<open>SetRecords\<close>

definition SetRecords_body ::
  "'s Client \<Rightarrow> Libdns \<Rightarrow> string \<Rightarrow> Record \<Rightarrow> Record list \<Rightarrow> 's world
     \<Rightarrow> (error + Record list) \<times> 's world" where
  "SetRecords_body cli lib zone record updatedRecords w =
     (case cli_RRSet cli zone (RR_Name (RR lib record)) (RR_Type (RR lib record)) w of
        (Inl err, w1) \<Rightarrow> (Inl (VendorError err), w1)
      | (Inr rrSet, w1) \<Rightarrow>
          (case cli_UpdateRRSet cli zone (RR_Name (RR lib record)) (RR_Type (RR lib record))
                  (merge_loop cli (RR_Data (RR lib record)) rrSet) w1 of
             (Some err, w2) \<Rightarrow> (Inl (VendorError err), w2)
           | (None, w2) \<Rightarrow> (Inr (updatedRecords @ [record]), w2)))"

fun SetRecords_loop ::
  "'s Client \<Rightarrow> Libdns \<Rightarrow> string \<Rightarrow> Record list \<Rightarrow> Record list \<Rightarrow> 's world
     \<Rightarrow> (error + Record list) \<times> 's world" where
  "SetRecords_loop cli lib zone [] updatedRecords w = (Inr updatedRecords, w)"
| "SetRecords_loop cli lib zone (record # rest) updatedRecords w =
     (case SetRecords_body cli lib zone record updatedRecords w of
        (Inl err, w') \<Rightarrow> (Inl err, w')
      | (Inr updatedRecords', w') \<Rightarrow> SetRecords_loop cli lib zone rest updatedRecords' w')"

definition SetRecords ::
  "'s Client \<Rightarrow> Libdns \<Rightarrow> string \<Rightarrow> Record list \<Rightarrow> 's world \<Rightarrow> ret \<times> Record list \<times> 's world" where
  "SetRecords cli lib zone records w =
     (let records' = qualify_in_place lib zone records in
      case SetRecords_loop cli lib zone records' [] w of
        (Inl err, w') \<Rightarrow> (([], Some err), records', w')
      | (Inr updatedRecords, w') \<Rightarrow>
          ((map (\<lambda>record. unqualifyRecordNames lib record zone) updatedRecords, None),
           records', w'))"

subsection \<open>DeleteRecords\<close>

definition DeleteRecords_body ::
  "'s Client \<Rightarrow> Libdns \<Rightarrow> string \<Rightarrow> Record \<Rightarrow> Record list \<Rightarrow> 's world
     \<Rightarrow> (error + Record list) \<times> 's world" where
  "DeleteRecords_body cli lib zone record deletedRecords w =
     (case cli_DeleteRRSetRecord cli zone (RR_Name (RR lib record)) (RR_Type (RR lib record))
             (RR_Data (RR lib record)) w of
        (Some err, w1) \<Rightarrow> (Inl (FailedToDelete record), w1)
      | (None, w1) \<Rightarrow> (Inr (deletedRecords @ [record]), w1))"

fun DeleteRecords_loop ::
  "'s Client \<Rightarrow> Libdns \<Rightarrow> string \<Rightarrow> Record list \<Rightarrow> Record list \<Rightarrow> 's world
     \<Rightarrow> (error + Record list) \<times> 's world" where
  "DeleteRecords_loop cli lib zone [] deletedRecords w = (Inr deletedRecords, w)"
| "DeleteRecords_loop cli lib zone (record # rest) deletedRecords w =
     (case DeleteRecords_body cli lib zone record deletedRecords w of
        (Inl err, w') \<Rightarrow> (Inl err, w')
      | (Inr deletedRecords', w') \<Rightarrow> DeleteRecords_loop cli lib zone rest deletedRecords' w')"

definition DeleteRecords ::
  "'s Client \<Rightarrow> Libdns \<Rightarrow> string \<Rightarrow> Record list \<Rightarrow> 's world \<Rightarrow> ret \<times> Record list \<times> 's world" where
  "DeleteRecords cli lib zone records w =
     (let records' = qualify_in_place lib zone records in
      case DeleteRecords_loop cli lib zone records' [] w of
        (Inl err, w') \<Rightarrow> (([], Some err), records', w')
      | (Inr deletedRecords, w') \<Rightarrow>
          ((map (\<lambda>record. unqualifyRecordNames lib record zone) deletedRecords, None),
           records', w'))"

section \<open>Concrete instances\<close>

text \<open>
  To evaluate the model on an input, the two parameters need values. \<open>ref_libdns\<close> follows
  the documented behaviour of the libdns functions on well-formed input; \<open>mem_client\<close> is
  a vendor that keeps its sets in a table, \<open>limited_client\<close> the same behind a request
  limit. No general theorem about the provider refers to any of them.
\<close>

subsection \<open>A libdns\<close>

definition TrimSuffix :: "string \<Rightarrow> string \<Rightarrow> string" where
  "TrimSuffix s suf = (if suffix suf s then take (length s - length suf) s else s)"

definition TrimDots :: "string \<Rightarrow> string" where
  "TrimDots s = rev (dropWhile (\<lambda>c. c = CHR ''.'') (rev (dropWhile (\<lambda>c. c = CHR ''.'') s)))"

definition ref_AbsoluteName :: "string \<Rightarrow> string \<Rightarrow> string" where
  "ref_AbsoluteName name zone =
     (if zone = [] then TrimDots name
      else if name = [] \<or> name = ''@'' then zone
      else if suffix ''.'' name then name
      else name @ ''.'' @ zone)"

definition ref_RelativeName :: "string \<Rightarrow> string \<Rightarrow> string" where
  "ref_RelativeName fqdn zone =
     (let rel = TrimSuffix (TrimSuffix (TrimSuffix fqdn ''.'') (TrimSuffix zone ''.'')) ''.''
      in if rel = [] \<and> fqdn \<noteq> [] \<and> zone \<noteq> [] then ''@'' else rel)"

fun decimal :: "nat \<Rightarrow> string" where
  "decimal n =
     (if n < 10 then [''0123456789'' ! n]
      else decimal (n div 10) @ [''0123456789'' ! (n mod 10)])"

definition digit_value :: "char \<Rightarrow> nat option" where
  "digit_value c = map_of (zip ''0123456789'' [0, 1, 2, 3, 4, 5, 6, 7, 8, 9]) c"

fun parse_decimal :: "nat \<Rightarrow> string \<Rightarrow> nat option" where
  "parse_decimal acc [] = Some acc"
| "parse_decimal acc (c # cs) =
     (case digit_value c of None \<Rightarrow> None | Some d \<Rightarrow> parse_decimal (10 * acc + d) cs)"

definition parse_uint16 :: "string \<Rightarrow> 16 word option" where
  "parse_uint16 s =
     (if s = [] then None
      else case parse_decimal 0 s of
             None \<Rightarrow> None
           | Some n \<Rightarrow> if n < 65536 then Some (of_nat n) else None)"

text \<open>\<open>split_at sep s\<close> cuts \<open>s\<close> at the first \<open>sep\<close>; \<open>fields\<close> cuts at every space.\<close>

definition split_at :: "char \<Rightarrow> string \<Rightarrow> string \<times> string" where
  "split_at sep s = (takeWhile (\<lambda>c. c \<noteq> sep) s, drop 1 (dropWhile (\<lambda>c. c \<noteq> sep) s))"

fun fields :: "string \<Rightarrow> string \<Rightarrow> string list" where
  "fields cur [] = (if cur = [] then [] else [cur])"
| "fields cur (c # cs) =
     (if c = CHR '' '' then (if cur = [] then fields [] cs else cur # fields [] cs)
      else fields (cur @ [c]) cs)"

definition ref_RR :: "Record \<Rightarrow> RR" where
  "ref_RR record =
     (case record of
        RR_Record r \<Rightarrow> r
      | Opaque_Record r \<Rightarrow> r
      | Address name ttl ip \<Rightarrow>
          \<lparr>RR_Name = name, RR_TTL = ttl,
           RR_Type = (if CHR '':'' \<in> set ip then ''AAAA'' else ''A''), RR_Data = ip\<rparr>
      | CNAME name ttl target \<Rightarrow>
          \<lparr>RR_Name = name, RR_TTL = ttl, RR_Type = ''CNAME'', RR_Data = target\<rparr>
      | TXT name ttl txt \<Rightarrow> \<lparr>RR_Name = name, RR_TTL = ttl, RR_Type = ''TXT'', RR_Data = txt\<rparr>
      | MX name ttl preference target \<Rightarrow>
          \<lparr>RR_Name = name, RR_TTL = ttl, RR_Type = ''MX'',
           RR_Data = decimal (unat preference) @ '' '' @ target\<rparr>
      | NS name ttl target \<Rightarrow> \<lparr>RR_Name = name, RR_TTL = ttl, RR_Type = ''NS'', RR_Data = target\<rparr>
      | SRV name ttl service transport priority weight target port \<Rightarrow>
          \<lparr>RR_Name = ''_'' @ service @ ''._'' @ transport @ ''.'' @ name, RR_TTL = ttl,
           RR_Type = ''SRV'',
           RR_Data = decimal (unat priority) @ '' '' @ decimal (unat weight) @ '' ''
                       @ decimal (unat port) @ '' '' @ target\<rparr>)"

definition ref_Parse_MX :: "RR \<Rightarrow> Record option" where
  "ref_Parse_MX r =
     (case fields [] (RR_Data r) of
        [p, target] \<Rightarrow>
          (case parse_uint16 p of
             None \<Rightarrow> None
           | Some preference \<Rightarrow> Some (MX (RR_Name r) (RR_TTL r) preference target))
      | _ \<Rightarrow> None)"

definition ref_Parse_SRV :: "RR \<Rightarrow> Record option" where
  "ref_Parse_SRV r =
     (case fields [] (RR_Data r) of
        [p, w, po, target] \<Rightarrow>
          (case (parse_uint16 p, parse_uint16 w, parse_uint16 po) of
             (Some priority, Some weight, Some port) \<Rightarrow>
               (let (service, rest) = split_at (CHR ''.'') (RR_Name r);
                    (transport, name) = split_at (CHR ''.'') rest
                in if CHR ''.'' \<in> set (RR_Name r) \<and> CHR ''.'' \<in> set rest
                   then Some (SRV name (RR_TTL r) (drop 1 service) (drop 1 transport)
                                priority weight target port)
                   else None)
           | _ \<Rightarrow> None)
      | _ \<Rightarrow> None)"

definition ref_Parse :: "RR \<Rightarrow> Record option" where
  "ref_Parse r =
     (if RR_Type r = ''A'' \<or> RR_Type r = ''AAAA'' then
        (if RR_Data r = [] then None else Some (Address (RR_Name r) (RR_TTL r) (RR_Data r)))
      else if RR_Type r = ''CNAME'' then Some (CNAME (RR_Name r) (RR_TTL r) (RR_Data r))
      else if RR_Type r = ''TXT'' then Some (TXT (RR_Name r) (RR_TTL r) (RR_Data r))
      else if RR_Type r = ''NS'' then Some (NS (RR_Name r) (RR_TTL r) (RR_Data r))
      else if RR_Type r = ''MX'' then ref_Parse_MX r
      else if RR_Type r = ''SRV'' then ref_Parse_SRV r
      else if RR_Type r = ''CAA'' \<or> RR_Type r = ''HTTPS'' \<or> RR_Type r = ''SVCB''
        then Some (Opaque_Record r)
      else Some (RR_Record r))"

text \<open>Whole seconds of a duration, for durations that are not negative.\<close>

definition ref_Seconds :: "Duration \<Rightarrow> 64 word" where
  "ref_Seconds d = d div 1000000000"

definition ref_libdns :: Libdns where
  "ref_libdns =
     \<lparr>AbsoluteName = ref_AbsoluteName, RelativeName = ref_RelativeName, RR = ref_RR,
      Parse = ref_Parse, Seconds = ref_Seconds\<rparr>"

subsection \<open>A vendor\<close>

type_synonym mem = "((string \<times> string \<times> string) \<times> RRSet) list"

definition not_found :: string where
  "not_found = ''404: record is not found''"

fun any_to_string :: "any \<Rightarrow> string" where
  "any_to_string (Any_string s) = s"
| "any_to_string (Any_number n) = (if n < 0 then ''-'' @ decimal (nat (- n)) else decimal (nat n))"

fun join_space :: "string list \<Rightarrow> string" where
  "join_space [] = []"
| "join_space [x] = x"
| "join_space (x # y # ys) = x @ '' '' @ join_space (y # ys)"

definition mem_ContentToString :: "ResourceRecord \<Rightarrow> string" where
  "mem_ContentToString rr = join_space (map any_to_string (Content rr))"

definition mem_Zone :: "string \<Rightarrow> mem \<Rightarrow> (string + Zone) \<times> mem" where
  "mem_Zone zone s =
     (Inr \<lparr>Zone_Records =
             map (\<lambda>((z, name, type), rrSet).
                    \<lparr>ZoneRecord_Name = name, ZoneRecord_Type = type,
                     ZoneRecord_TTL = RRSet_TTL rrSet\<rparr>)
               (filter (\<lambda>((z, name, type), rrSet). z = zone) s)\<rparr>, s)"

definition mem_RRSet :: "string \<Rightarrow> string \<Rightarrow> string \<Rightarrow> mem \<Rightarrow> (string + RRSet) \<times> mem" where
  "mem_RRSet zone name type s =
     (case map_of s (zone, name, type) of
        None \<Rightarrow> (Inl not_found, s)
      | Some rrSet \<Rightarrow> (Inr rrSet, s))"

definition mem_UpdateRRSet ::
  "string \<Rightarrow> string \<Rightarrow> string \<Rightarrow> RRSet \<Rightarrow> mem \<Rightarrow> string option \<times> mem" where
  "mem_UpdateRRSet zone name type rrSet s = (None, AList.update (zone, name, type) rrSet s)"

definition mem_DeleteRRSetRecord ::
  "string \<Rightarrow> string \<Rightarrow> string \<Rightarrow> string \<Rightarrow> mem \<Rightarrow> string option \<times> mem" where
  "mem_DeleteRRSetRecord zone name type content s =
     (case map_of s (zone, name, type) of
        None \<Rightarrow> (Some not_found, s)
      | Some rrSet \<Rightarrow>
          if content \<in> set (map mem_ContentToString (RRSet_Records rrSet))
          then (None, AList.update (zone, name, type)
                        (rrSet\<lparr>RRSet_Records :=
                           filter (\<lambda>rr. mem_ContentToString rr \<noteq> content) (RRSet_Records rrSet)\<rparr>)
                        s)
          else (Some not_found, s))"

definition mem_client :: "mem Client" where
  "mem_client =
     \<lparr>Zone = mem_Zone, RRSet = mem_RRSet, UpdateRRSet = mem_UpdateRRSet,
      DeleteRRSetRecord = mem_DeleteRRSetRecord, ContentToString = mem_ContentToString\<rparr>"

text \<open>
  A vendor with a request limit: the state carries the number of requests still allowed;
  each call uses one, and once none is left every call fails with status 429.
\<close>

definition too_many :: string where
  "too_many = ''429: too many requests''"

definition limited_client :: "(nat \<times> mem) Client" where
  "limited_client =
     \<lparr>Zone = (\<lambda>zone (n, s).
        if n = 0 then (Inl too_many, (n, s))
        else case mem_Zone zone s of (res, s') \<Rightarrow> (res, (n - 1, s'))),
      RRSet = (\<lambda>zone name type (n, s).
        if n = 0 then (Inl too_many, (n, s))
        else case mem_RRSet zone name type s of (res, s') \<Rightarrow> (res, (n - 1, s'))),
      UpdateRRSet = (\<lambda>zone name type rrSet (n, s).
        if n = 0 then (Some too_many, (n, s))
        else case mem_UpdateRRSet zone name type rrSet s of (res, s') \<Rightarrow> (res, (n - 1, s'))),
      DeleteRRSetRecord = (\<lambda>zone name type content (n, s).
        if n = 0 then (Some too_many, (n, s))
        else case mem_DeleteRRSetRecord zone name type content s of
               (res, s') \<Rightarrow> (res, (n - 1, s'))),
      ContentToString = mem_ContentToString\<rparr>"

section \<open>Notions used in the statements\<close>

text \<open>
  The six shapes \<^verbatim>\<open>qualityRecordNames\<close> and \<^verbatim>\<open>unqualifyRecordNames\<close> rebuild, the \<^verbatim>\<open>Name\<close>
  field of a record, and the record with that field replaced and all others kept.
\<close>

fun supported :: "Record \<Rightarrow> bool" where
  "supported (Address name ttl ip) = True"
| "supported (CNAME name ttl target) = True"
| "supported (TXT name ttl txt) = True"
| "supported (MX name ttl preference target) = True"
| "supported (NS name ttl target) = True"
| "supported (SRV name ttl service transport priority weight target port) = True"
| "supported (RR_Record r) = False"
| "supported (Opaque_Record r) = False"

fun record_Name :: "Record \<Rightarrow> string" where
  "record_Name (Address name ttl ip) = name"
| "record_Name (CNAME name ttl target) = name"
| "record_Name (TXT name ttl txt) = name"
| "record_Name (MX name ttl preference target) = name"
| "record_Name (NS name ttl target) = name"
| "record_Name (SRV name ttl service transport priority weight target port) = name"
| "record_Name (RR_Record r) = RR_Name r"
| "record_Name (Opaque_Record r) = RR_Name r"

fun with_Name :: "string \<Rightarrow> Record \<Rightarrow> Record" where
  "with_Name n (Address name ttl ip) = Address n ttl ip"
| "with_Name n (CNAME name ttl target) = CNAME n ttl target"
| "with_Name n (TXT name ttl txt) = TXT n ttl txt"
| "with_Name n (MX name ttl preference target) = MX n ttl preference target"
| "with_Name n (NS name ttl target) = NS n ttl target"
| "with_Name n (SRV name ttl service transport priority weight target port) =
     SRV n ttl service transport priority weight target port"
| "with_Name n (RR_Record r) = RR_Record (r\<lparr>RR_Name := n\<rparr>)"
| "with_Name n (Opaque_Record r) = Opaque_Record (r\<lparr>RR_Name := n\<rparr>)"

text \<open>
  The order in which \<^verbatim>\<open>AppendRecords\<close> takes the records: group after group as the map is
  ranged over, each group in the order of the input. \<open>AppendRecords_seq\<close> runs the loop
  body along such a sequence; it is the two nested loops written as one.
\<close>

definition schedule :: "(string \<rightharpoonup> Record list) \<Rightarrow> string list \<Rightarrow> (string \<times> Record) list" where
  "schedule recordsByType order =
     concat (map (\<lambda>recordType.
               map (Pair recordType)
                 (case recordsByType recordType of None \<Rightarrow> [] | Some rs \<Rightarrow> rs)) order)"

fun AppendRecords_seq ::
  "'s Client \<Rightarrow> Libdns \<Rightarrow> string \<Rightarrow> (string \<times> Record) list \<Rightarrow> Record list \<Rightarrow> 's world
     \<Rightarrow> (error + Record list) \<times> 's world" where
  "AppendRecords_seq cli lib zone [] addedRecords w = (Inr addedRecords, w)"
| "AppendRecords_seq cli lib zone ((recordType, record) # rest) addedRecords w =
     (case AppendRecords_body cli lib zone recordType record addedRecords w of
        (Inl err, w') \<Rightarrow> (Inl err, w')
      | (Inr addedRecords', w') \<Rightarrow> AppendRecords_seq cli lib zone rest addedRecords' w')"

text \<open>What an operation hands back from the result of its loop.\<close>

definition finish ::
  "Libdns \<Rightarrow> string \<Rightarrow> Record list \<Rightarrow> (error + Record list) \<times> 's world
     \<Rightarrow> ret \<times> Record list \<times> 's world" where
  "finish lib zone records' r =
     (case r of
        (Inl err, w') \<Rightarrow> (([], Some err), records', w')
      | (Inr done, w') \<Rightarrow>
          ((map (\<lambda>record. unqualifyRecordNames lib record zone) done, None), records', w'))"

text \<open>
  The set \<^verbatim>\<open>AppendRecords\<close> builds when the vendor has none for the record's name and type.
\<close>

definition created_RRSet :: "Libdns \<Rightarrow> string \<Rightarrow> Record \<Rightarrow> RRSet" where
  "created_RRSet lib recordType record =
     \<lparr>RRSet_Type = recordType,
      RRSet_TTL = Seconds lib (RR_TTL (RR lib record)),
      RRSet_Records = [\<lparr>Content = [Any_string (RR_Data (RR lib record))], Enabled = True\<rparr>]\<rparr>"

text \<open>
  The fetches of \<^verbatim>\<open>GetRecords\<close> alone, one per entry of the zone's index, and the record
  built from an index entry and one value of its set.
\<close>

fun fetch_sets ::
  "'s Client \<Rightarrow> string \<Rightarrow> ZoneRecord list \<Rightarrow> 's world \<Rightarrow> (string + RRSet list) \<times> 's world" where
  "fetch_sets cli zone [] w = (Inr [], w)"
| "fetch_sets cli zone (gcoreRecord # rest) w =
     (case cli_RRSet cli zone (ZoneRecord_Name gcoreRecord) (ZoneRecord_Type gcoreRecord) w of
        (Inl err, w') \<Rightarrow> (Inl err, w')
      | (Inr rrSet, w') \<Rightarrow>
          (case fetch_sets cli zone rest w' of
             (Inl err, w'') \<Rightarrow> (Inl err, w'')
           | (Inr rrSets, w'') \<Rightarrow> (Inr (rrSet # rrSets), w'')))"

definition listed_record :: "'s Client \<Rightarrow> ZoneRecord \<Rightarrow> ResourceRecord \<Rightarrow> Record" where
  "listed_record cli gcoreRecord rr =
     RR_Record \<lparr>RR_Name = ZoneRecord_Name gcoreRecord,
                RR_TTL = ZoneRecord_TTL gcoreRecord * 1000000000,
                RR_Type = ZoneRecord_Type gcoreRecord,
                RR_Data = ContentToString cli rr\<rparr>"

text \<open>
  The vendor calls that concern a record: a fetch or a push of the set with the record's
  name and type, or the deletion of its value from that set.
\<close>

fun call_for :: "Libdns \<Rightarrow> string \<Rightarrow> Record \<Rightarrow> Call \<Rightarrow> bool" where
  "call_for lib zone record (Call_Zone z) = False"
| "call_for lib zone record (Call_RRSet z name type) =
     (z = zone \<and> name = RR_Name (RR lib record) \<and> type = RR_Type (RR lib record))"
| "call_for lib zone record (Call_UpdateRRSet z name type rrSet) =
     (z = zone \<and> name = RR_Name (RR lib record) \<and> type = RR_Type (RR lib record))"
| "call_for lib zone record (Call_DeleteRRSetRecord z name type content) =
     (z = zone \<and> name = RR_Name (RR lib record) \<and> type = RR_Type (RR lib record)
      \<and> content = RR_Data (RR lib record))"

section \<open>Evaluation on concrete inputs\<close>

text \<open>
  The equations that unfold the concrete instances and the bodies of the model, for the
  simplifier.
\<close>

lemma ref_simps:
  "AbsoluteName ref_libdns = ref_AbsoluteName" "RelativeName ref_libdns = ref_RelativeName"
  "RR ref_libdns = ref_RR" "Parse ref_libdns = ref_Parse" "Seconds ref_libdns = ref_Seconds"
  by (simp_all add: ref_libdns_def)

lemmas ref_eval = ref_simps ref_Parse_def ref_RR_def ref_Parse_MX_def ref_Parse_SRV_def
  parse_uint16_def digit_value_def split_at_def ref_RelativeName_def ref_AbsoluteName_def
  TrimSuffix_def suffix_def ref_Seconds_def

lemma mem_simps:
  "Zone mem_client = mem_Zone" "RRSet mem_client = mem_RRSet"
  "UpdateRRSet mem_client = mem_UpdateRRSet"
  "DeleteRRSetRecord mem_client = mem_DeleteRRSetRecord"
  "ContentToString mem_client = mem_ContentToString"
  by (simp_all add: mem_client_def)

lemma limited_simps:
  "RRSet limited_client zone name type (n, s) =
     (if n = 0 then (Inl too_many, (n, s))
      else case mem_RRSet zone name type s of (res, s') \<Rightarrow> (res, (n - 1, s')))"
  "UpdateRRSet limited_client zone name type rrSet (n, s) =
     (if n = 0 then (Some too_many, (n, s))
      else case mem_UpdateRRSet zone name type rrSet s of (res, s') \<Rightarrow> (res, (n - 1, s')))"
  "DeleteRRSetRecord limited_client zone name type content (n, s) =
     (if n = 0 then (Some too_many, (n, s))
      else case mem_DeleteRRSetRecord zone name type content s of
             (res, s') \<Rightarrow> (res, (n - 1, s')))"
  "ContentToString limited_client = mem_ContentToString"
  by (simp_all add: limited_client_def)

lemmas mem_eval = mem_simps limited_simps mem_Zone_def mem_RRSet_def mem_UpdateRRSet_def
  mem_DeleteRRSetRecord_def mem_ContentToString_def not_found_def too_many_def

lemmas run_eval = finish_def qualify_in_place_def qualityRecordNames_def unqualifyRecordNames_def
  schedule_def group_by_type_def group_step_def AppendRecords_body_def SetRecords_body_def
  DeleteRecords_body_def cli_Zone_def cli_RRSet_def cli_UpdateRRSet_def cli_DeleteRRSetRecord_def
  created_RRSet_def merge_loop_def merge_step_def listed_record_def

lemmas op_eval = AppendRecords_def SetRecords_def DeleteRecords_def GetRecords_def Let_def

subsection \<open>Names under the reference libdns\<close>

text \<open>
  Under \<open>ref_libdns\<close> a name that is not empty and does not end in a dot comes back
  from \<open>ref_RelativeName\<close> after \<open>ref_AbsoluteName\<close>, in every zone that is not empty; this
  includes the zone's root \<^verbatim>\<open>@\<close>.
\<close>

lemma TrimSuffix_append: "TrimSuffix (xs @ ys) ys = xs"
  by (simp add: TrimSuffix_def suffix_def)

lemma suffix_dot: "suffix ''.'' xs \<longleftrightarrow> xs \<noteq> [] \<and> last xs = CHR ''.''"
proof
  assume "suffix ''.'' xs"
  then obtain ys where "xs = ys @ ''.''" by (auto simp: suffix_def)
  then show "xs \<noteq> [] \<and> last xs = CHR ''.''" by simp
next
  assume "xs \<noteq> [] \<and> last xs = CHR ''.''"
  then have "xs = butlast xs @ ''.''" by (metis append_butlast_last_id)
  then show "suffix ''.'' xs" by (metis suffixI)
qed

lemma TrimSuffix_dot_append:
  assumes "zone \<noteq> []"
  shows "TrimSuffix (xs @ zone) ''.'' = xs @ TrimSuffix zone ''.''"
proof (cases "suffix ''.'' zone")
  case True
  then obtain z where z: "zone = z @ ''.''" by (auto simp: suffix_def)
  have "TrimSuffix ((xs @ z) @ ''.'') ''.'' = xs @ z" by (rule TrimSuffix_append)
  moreover have "TrimSuffix (z @ ''.'') ''.'' = z" by (rule TrimSuffix_append)
  ultimately show ?thesis by (simp add: z)
next
  case False
  with assms have "\<not> suffix ''.'' (xs @ zone)" by (simp add: suffix_dot)
  with False show ?thesis by (simp add: TrimSuffix_def)
qed

lemma ref_names_round_trip:
  assumes name: "name \<noteq> []" and relative: "\<not> suffix ''.'' name" and zone: "zone \<noteq> []"
  shows "ref_RelativeName (ref_AbsoluteName name zone) zone = name"
proof (cases "name = ''@''")
  case True
  have "TrimSuffix (TrimSuffix ([] @ TrimSuffix zone ''.'') (TrimSuffix zone ''.'')) ''.'' = []"
    unfolding TrimSuffix_append by (simp add: TrimSuffix_def)
  with True zone show ?thesis
    by (simp add: ref_RelativeName_def ref_AbsoluteName_def)
next
  case False
  have abs: "ref_AbsoluteName name zone = (name @ ''.'') @ zone"
    using False name relative zone by (simp add: ref_AbsoluteName_def)
  have "TrimSuffix ((name @ ''.'') @ zone) ''.'' = (name @ ''.'') @ TrimSuffix zone ''.''"
    using zone by (rule TrimSuffix_dot_append)
  then have "TrimSuffix (TrimSuffix (TrimSuffix ((name @ ''.'') @ zone) ''.'')
               (TrimSuffix zone ''.'')) ''.'' = name"
    by (simp only: TrimSuffix_append)
  with name show ?thesis
    by (simp add: ref_RelativeName_def abs)
qed

section \<open>Properties of name qualification\<close>

lemma qualityRecordNames_supported:
  "Parse lib (RR lib record) = Some rr \<Longrightarrow> supported rr \<Longrightarrow>
   qualityRecordNames lib record zone = with_Name (AbsoluteName lib (record_Name rr) zone) rr"
  by (cases rr) (simp_all add: qualityRecordNames_def)

lemma unqualifyRecordNames_supported:
  "Parse lib (RR lib record) = Some rr \<Longrightarrow> supported rr \<Longrightarrow>
   unqualifyRecordNames lib record zone = with_Name (RelativeName lib (record_Name rr) zone) rr"
  by (cases rr) (simp_all add: unqualifyRecordNames_def)

lemma qualityRecordNames_eq:
  "qualityRecordNames lib record zone =
     (case Parse lib (RR lib record) of
        None \<Rightarrow> record
      | Some rr \<Rightarrow>
          if supported rr then with_Name (AbsoluteName lib (record_Name rr) zone) rr else record)"
  by (simp add: qualityRecordNames_def split: option.splits Record.splits)

lemma unqualifyRecordNames_eq:
  "unqualifyRecordNames lib record zone =
     (case Parse lib (RR lib record) of
        None \<Rightarrow> record
      | Some rr \<Rightarrow>
          if supported rr then with_Name (RelativeName lib (record_Name rr) zone) rr else record)"
  by (simp add: unqualifyRecordNames_def split: option.splits Record.splits)

lemma supported_with_Name: "supported (with_Name n rr) = supported rr"
  by (cases rr) simp_all

lemma record_Name_with_Name: "record_Name (with_Name n rr) = n"
  by (cases rr) simp_all

lemma with_Name_with_Name: "with_Name m (with_Name n rr) = with_Name m rr"
  by (cases rr) simp_all

lemma with_Name_record_Name: "with_Name (record_Name rr) rr = rr"
  by (cases rr) simp_all

section \<open>The loops\<close>

subsection \<open>Merging\<close>

lemma fold_merge_step:
  "fold (merge_step cli content) rrs rrSet =
     rrSet\<lparr>RRSet_Records := RRSet_Records rrSet @
        replicate (length (filter (\<lambda>rr. ContentToString cli rr \<noteq> content) rrs))
          \<lparr>Content = [Any_string content], Enabled = True\<rparr>\<rparr>"
proof (induction rrs arbitrary: rrSet)
  case Nil
  show ?case by simp
next
  case (Cons rr rrs)
  show ?case
  proof (cases "ContentToString cli rr = content")
    case True
    then have "merge_step cli content rr rrSet = rrSet"
      by (simp add: merge_step_def)
    then show ?thesis using True by (simp add: Cons.IH)
  next
    case False
    then have "merge_step cli content rr rrSet =
                 rrSet\<lparr>RRSet_Records := RRSet_Records rrSet
                    @ [\<lparr>Content = [Any_string content], Enabled = True\<rparr>]\<rparr>"
      by (simp add: merge_step_def)
    then show ?thesis using False by (simp add: Cons.IH)
  qed
qed

lemma merge_loop_eq:
  "merge_loop cli content rrSet =
     rrSet\<lparr>RRSet_Records := RRSet_Records rrSet @
        replicate (length (filter (\<lambda>rr. ContentToString cli rr \<noteq> content) (RRSet_Records rrSet)))
          \<lparr>Content = [Any_string content], Enabled = True\<rparr>\<rparr>"
  by (simp add: merge_loop_def fold_merge_step)

subsection \<open>Grouping by type\<close>

lemma fold_group_step:
  "fold (group_step lib) records m t =
     (if filter (\<lambda>r. RR_Type (RR lib r) = t) records = [] then m t
      else Some ((case m t of None \<Rightarrow> [] | Some rs \<Rightarrow> rs)
                   @ filter (\<lambda>r. RR_Type (RR lib r) = t) records))"
proof (induction records arbitrary: m)
  case Nil
  show ?case by simp
next
  case (Cons r records)
  have "fold (group_step lib) (r # records) m t = fold (group_step lib) records (group_step lib r m) t"
    by simp
  also have "\<dots> =
     (if filter (\<lambda>r. RR_Type (RR lib r) = t) records = [] then group_step lib r m t
      else Some ((case group_step lib r m t of None \<Rightarrow> [] | Some rs \<Rightarrow> rs)
                   @ filter (\<lambda>r. RR_Type (RR lib r) = t) records))"
    by (rule Cons.IH)
  finally have unfolded: "fold (group_step lib) (r # records) m t =
     (if filter (\<lambda>r. RR_Type (RR lib r) = t) records = [] then group_step lib r m t
      else Some ((case group_step lib r m t of None \<Rightarrow> [] | Some rs \<Rightarrow> rs)
                   @ filter (\<lambda>r. RR_Type (RR lib r) = t) records))" .
  have step: "group_step lib r m t =
     (if t = RR_Type (RR lib r)
      then Some ((case m t of None \<Rightarrow> [] | Some rs \<Rightarrow> rs) @ [r]) else m t)"
    by (simp add: group_step_def)
  show ?case
    unfolding unfolded step by auto
qed

lemma group_by_type_eq:
  "(case group_by_type lib records t of None \<Rightarrow> [] | Some rs \<Rightarrow> rs) =
     filter (\<lambda>r. RR_Type (RR lib r) = t) records"
  by (simp add: group_by_type_def fold_group_step)

lemma schedule_group:
  "schedule (group_by_type lib records) order =
     concat (map (\<lambda>t. map (Pair t) (filter (\<lambda>r. RR_Type (RR lib r) = t) records)) order)"
  by (simp add: schedule_def group_by_type_eq)

lemma in_schedule_group:
  "(t, r) \<in> set (schedule (group_by_type lib records) order) \<Longrightarrow>
     r \<in> set records \<and> RR_Type (RR lib r) = t"
  by (auto simp: schedule_group)

subsection \<open>Loops over a list that is cut in two\<close>

lemma AppendRecords_seq_append:
  "AppendRecords_seq cli lib zone (xs @ ys) acc w =
     (case AppendRecords_seq cli lib zone xs acc w of
        (Inl err, w') \<Rightarrow> (Inl err, w')
      | (Inr acc', w') \<Rightarrow> AppendRecords_seq cli lib zone ys acc' w')"
  by (induction xs arbitrary: acc w) (auto split: prod.splits sum.splits)

lemma AppendRecords_records_seq:
  "AppendRecords_records cli lib zone t rs acc w =
     AppendRecords_seq cli lib zone (map (Pair t) rs) acc w"
  by (induction rs arbitrary: acc w) (auto split: prod.splits sum.splits)

lemma AppendRecords_types_seq:
  "AppendRecords_types cli lib zone m order acc w =
     AppendRecords_seq cli lib zone (schedule m order) acc w"
proof (induction order arbitrary: acc w)
  case Nil
  show ?case by (simp add: schedule_def)
next
  case (Cons t order)
  have s: "schedule m (t # order) =
             map (Pair t) (case m t of None \<Rightarrow> [] | Some rs \<Rightarrow> rs) @ schedule m order"
    by (simp add: schedule_def)
  show ?case
    by (simp add: s AppendRecords_seq_append AppendRecords_records_seq Cons.IH
          split: prod.splits sum.splits)
qed

lemma SetRecords_loop_append:
  "SetRecords_loop cli lib zone (xs @ ys) acc w =
     (case SetRecords_loop cli lib zone xs acc w of
        (Inl err, w') \<Rightarrow> (Inl err, w')
      | (Inr acc', w') \<Rightarrow> SetRecords_loop cli lib zone ys acc' w')"
  by (induction xs arbitrary: acc w) (auto split: prod.splits sum.splits)

lemma DeleteRecords_loop_append:
  "DeleteRecords_loop cli lib zone (xs @ ys) acc w =
     (case DeleteRecords_loop cli lib zone xs acc w of
        (Inl err, w') \<Rightarrow> (Inl err, w')
      | (Inr acc', w') \<Rightarrow> DeleteRecords_loop cli lib zone ys acc' w')"
  by (induction xs arbitrary: acc w) (auto split: prod.splits sum.splits)

subsection \<open>The operations as a loop and its end\<close>

lemma finish_Inl: "finish lib zone rs (Inl err, w) = (([], Some err), rs, w)"
  by (simp add: finish_def)

lemma finish_Inr:
  "finish lib zone rs (Inr done, w) =
     ((map (\<lambda>record. unqualifyRecordNames lib record zone) done, None), rs, w)"
  by (simp add: finish_def)

lemma finish_parts:
  "fst (snd (finish lib zone rs r)) = rs" "snd (snd (finish lib zone rs r)) = snd r"
  by (cases r; cases "fst r"; simp add: finish_def)+

lemma AppendRecords_eq:
  "AppendRecords cli lib order zone records w =
     finish lib zone (qualify_in_place lib zone records)
       (AppendRecords_seq cli lib zone
          (schedule (group_by_type lib (qualify_in_place lib zone records)) order) [] w)"
  by (simp add: AppendRecords_def finish_def AppendRecords_types_seq Let_def
        split: prod.splits sum.splits)

lemma SetRecords_eq:
  "SetRecords cli lib zone records w =
     finish lib zone (qualify_in_place lib zone records)
       (SetRecords_loop cli lib zone (qualify_in_place lib zone records) [] w)"
  by (simp add: SetRecords_def finish_def Let_def split: prod.splits sum.splits)

lemma DeleteRecords_eq:
  "DeleteRecords cli lib zone records w =
     finish lib zone (qualify_in_place lib zone records)
       (DeleteRecords_loop cli lib zone (qualify_in_place lib zone records) [] w)"
  by (simp add: DeleteRecords_def finish_def Let_def split: prod.splits sum.splits)

subsection \<open>One iteration\<close>

lemma AppendRecords_body_fetch_error:
  assumes "RRSet cli zone (RR_Name (RR lib record)) recordType s = (Inl err, s1)"
  shows "AppendRecords_body cli lib zone recordType record acc (s, calls) =
     (if Contains err ''404: record is not found'' then
        (case UpdateRRSet cli zone (RR_Name (RR lib record)) recordType
                (created_RRSet lib recordType record) s1 of
           (None, s2) \<Rightarrow>
             (Inr (acc @ [record]),
              (s2, calls @ [Call_RRSet zone (RR_Name (RR lib record)) recordType,
                            Call_UpdateRRSet zone (RR_Name (RR lib record)) recordType
                              (created_RRSet lib recordType record)]))
         | (Some err2, s2) \<Rightarrow>
             (Inl (VendorError err2),
              (s2, calls @ [Call_RRSet zone (RR_Name (RR lib record)) recordType,
                            Call_UpdateRRSet zone (RR_Name (RR lib record)) recordType
                              (created_RRSet lib recordType record)])))
      else (Inl (VendorError err),
            (s1, calls @ [Call_RRSet zone (RR_Name (RR lib record)) recordType])))"
  using assms
  by (simp add: AppendRecords_body_def cli_RRSet_def cli_UpdateRRSet_def created_RRSet_def
        split: prod.splits option.splits)





subsection \<open>What a loop returns\<close>

lemma AppendRecords_body_Inr:
  "AppendRecords_body cli lib zone t r acc w = (Inr acc', w') \<Longrightarrow> acc' = acc @ [r]"
  by (auto simp: AppendRecords_body_def split: prod.splits sum.splits option.splits if_splits)

lemma SetRecords_body_Inr:
  "SetRecords_body cli lib zone r acc w = (Inr acc', w') \<Longrightarrow> acc' = acc @ [r]"
  by (auto simp: SetRecords_body_def split: prod.splits sum.splits option.splits if_splits)

lemma DeleteRecords_body_Inr:
  "DeleteRecords_body cli lib zone r acc w = (Inr acc', w') \<Longrightarrow> acc' = acc @ [r]"
  by (auto simp: DeleteRecords_body_def split: prod.splits sum.splits option.splits if_splits)

lemma AppendRecords_seq_Inr:
  "AppendRecords_seq cli lib zone xs acc w = (Inr acc', w') \<Longrightarrow> acc' = acc @ map snd xs"
proof (induction xs arbitrary: acc w)
  case Nil
  then show ?case by simp
next
  case (Cons x xs)
  obtain t r where x: "x = (t, r)" by (cases x)
  obtain res1 w1 where body: "AppendRecords_body cli lib zone t r acc w = (res1, w1)"
    by (metis surj_pair)
  show ?case
  proof (cases res1)
    case (Inl err)
    with Cons.prems body x show ?thesis by simp
  next
    case (Inr acc1)
    with body have "acc1 = acc @ [r]" by (auto dest: AppendRecords_body_Inr)
    moreover from Cons.prems body x Inr
    have "AppendRecords_seq cli lib zone xs acc1 w1 = (Inr acc', w')" by simp
    ultimately show ?thesis using x by (auto dest: Cons.IH)
  qed
qed

lemma SetRecords_loop_Inr:
  "SetRecords_loop cli lib zone xs acc w = (Inr acc', w') \<Longrightarrow> acc' = acc @ xs"
proof (induction xs arbitrary: acc w)
  case Nil
  then show ?case by simp
next
  case (Cons r xs)
  obtain res1 w1 where body: "SetRecords_body cli lib zone r acc w = (res1, w1)"
    by (metis surj_pair)
  show ?case
  proof (cases res1)
    case (Inl err)
    with Cons.prems body show ?thesis by simp
  next
    case (Inr acc1)
    with body have "acc1 = acc @ [r]" by (auto dest: SetRecords_body_Inr)
    moreover from Cons.prems body Inr
    have "SetRecords_loop cli lib zone xs acc1 w1 = (Inr acc', w')" by simp
    ultimately show ?thesis by (auto dest: Cons.IH)
  qed
qed

lemma DeleteRecords_loop_Inr:
  "DeleteRecords_loop cli lib zone xs acc w = (Inr acc', w') \<Longrightarrow> acc' = acc @ xs"
proof (induction xs arbitrary: acc w)
  case Nil
  then show ?case by simp
next
  case (Cons r xs)
  obtain res1 w1 where body: "DeleteRecords_body cli lib zone r acc w = (res1, w1)"
    by (metis surj_pair)
  show ?case
  proof (cases res1)
    case (Inl err)
    with Cons.prems body show ?thesis by simp
  next
    case (Inr acc1)
    with body have "acc1 = acc @ [r]" by (auto dest: DeleteRecords_body_Inr)
    moreover from Cons.prems body Inr
    have "DeleteRecords_loop cli lib zone xs acc1 w1 = (Inr acc', w')" by simp
    ultimately show ?thesis by (auto dest: Cons.IH)
  qed
qed

subsection \<open>Which calls a loop makes\<close>

lemma AppendRecords_body_calls:
  assumes "AppendRecords_body cli lib zone (RR_Type (RR lib record)) record acc w = (res, w')"
  shows "\<exists>new. snd w' = snd w @ new \<and> (\<forall>c\<in>set new. call_for lib zone record c)"
  using assms
  by (auto simp: AppendRecords_body_def cli_RRSet_def cli_UpdateRRSet_def
        split: prod.splits sum.splits option.splits if_splits)



lemma AppendRecords_seq_calls:
  assumes "AppendRecords_seq cli lib zone xs acc w = (res, w')"
    and "\<forall>(t, r)\<in>set xs. t = RR_Type (RR lib r)"
  shows "\<exists>new. snd w' = snd w @ new
           \<and> (\<forall>c\<in>set new. \<exists>r\<in>set (map snd xs). call_for lib zone r c)"
  using assms
proof (induction xs arbitrary: acc w)
  case Nil
  then show ?case by simp
next
  case (Cons x xs)
  obtain t r where x: "x = (t, r)" by (cases x)
  with Cons.prems have t: "t = RR_Type (RR lib r)" by simp
  obtain res1 w1 where body: "AppendRecords_body cli lib zone t r acc w = (res1, w1)"
    by (metis surj_pair)
  from AppendRecords_body_calls [OF body [unfolded t]]
  obtain new1 where new1: "snd w1 = snd w @ new1" "\<forall>c\<in>set new1. call_for lib zone r c"
    by blast
  show ?case
  proof (cases res1)
    case (Inl err)
    with Cons.prems body x have "w' = w1" by simp
    with new1 x show ?thesis by auto
  next
    case (Inr acc1)
    with Cons.prems body x have "AppendRecords_seq cli lib zone xs acc1 w1 = (res, w')" by simp
    from Cons.IH [OF this] Cons.prems(2)
    obtain new2 where "snd w' = snd w1 @ new2"
      "\<forall>c\<in>set new2. \<exists>r\<in>set (map snd xs). call_for lib zone r c"
      by auto
    with new1 x have "snd w' = snd w @ (new1 @ new2)
        \<and> (\<forall>c\<in>set (new1 @ new2). \<exists>r\<in>set (map snd (x # xs)). call_for lib zone r c)"
      by auto
    then show ?thesis by blast
  qed
qed



lemma AppendRecords_calls:
  "\<exists>new. snd (snd (snd (AppendRecords cli lib order zone records w))) = snd w @ new
     \<and> (\<forall>c\<in>set new. \<exists>q\<in>set (qualify_in_place lib zone records). call_for lib zone q c)"
proof -
  let ?xs = "schedule (group_by_type lib (qualify_in_place lib zone records)) order"
  obtain res w' where run: "AppendRecords_seq cli lib zone ?xs [] w = (res, w')"
    by (metis surj_pair)
  have types: "\<forall>(t, r)\<in>set ?xs. t = RR_Type (RR lib r)"
    by (auto dest: in_schedule_group)
  have sub: "set (map snd ?xs) \<subseteq> set (qualify_in_place lib zone records)"
    by (auto dest: in_schedule_group)
  have final: "snd (snd (snd (AppendRecords cli lib order zone records w))) = snd w'"
    by (simp only: AppendRecords_eq run finish_parts snd_conv)
  from AppendRecords_seq_calls [OF run types]
  obtain new where new: "snd w' = snd w @ new"
    "\<forall>c\<in>set new. \<exists>r\<in>set (map snd ?xs). call_for lib zone r c"
    by blast
  from new(2) sub have "\<forall>c\<in>set new. \<exists>q\<in>set (qualify_in_place lib zone records). call_for lib zone q c"
    by blast
  with new(1) final show ?thesis by metis
qed



subsection \<open>SetRecords run as AppendRecords\<close>


subsection \<open>GetRecords\<close>

lemma fold_slot:
  "fold (\<lambda>x recs. recs[i := Some (f x)]) xs recs =
     (if xs = [] then recs else recs[i := Some (f (last xs))])"
  by (induction xs arbitrary: recs) simp_all

lemma fetch_sets_length:
  "fetch_sets cli zone zrs w = (Inr rrSets, w') \<Longrightarrow> length rrSets = length zrs"
  by (induction zrs arbitrary: w rrSets) (auto split: prod.splits sum.splits)

lemma GetRecords_fetch_eq:
  "GetRecords_fetch cli zone (length done) zrs (done @ replicate (length zrs) None) w =
     (case fetch_sets cli zone zrs w of
        (Inl err, w') \<Rightarrow> (Inl err, w')
      | (Inr rrSets, w') \<Rightarrow>
          (Inr (done @ map2 (\<lambda>gcoreRecord rrSet.
                              if RRSet_Records rrSet = [] then None
                              else Some (listed_record cli gcoreRecord (last (RRSet_Records rrSet))))
                         zrs rrSets), w'))"
proof (induction zrs arbitrary: "done" w)
  case Nil
  show ?case by simp
next
  case (Cons zr zrs)
  show ?case
  proof -
    obtain res w1 where Pair: "cli_RRSet cli zone (ZoneRecord_Name zr) (ZoneRecord_Type zr) w = (res, w1)"
      by (metis surj_pair)
    show ?thesis
    proof (cases res)
      case (Inl err)
      then show ?thesis using Pair by simp
    next
      case (Inr rrSet)
      let ?slot = "if RRSet_Records rrSet = [] then None
                   else Some (listed_record cli zr (last (RRSet_Records rrSet)))"
      have slots: "fold (\<lambda>rr recs. recs[length done := Some (RR_Record
                     \<lparr>RR_Name = ZoneRecord_Name zr,
                      RR_TTL = ZoneRecord_TTL zr * 1000000000,
                      RR_Type = ZoneRecord_Type zr,
                      RR_Data = ContentToString cli rr\<rparr>)])
               (RRSet_Records rrSet) (done @ replicate (length (zr # zrs)) None)
             = (done @ [?slot]) @ replicate (length zrs) None"
        by (simp add: fold_slot listed_record_def)
      have "GetRecords_fetch cli zone (length done) (zr # zrs)
              (done @ replicate (length (zr # zrs)) None) w =
            GetRecords_fetch cli zone (length (done @ [?slot])) zrs
              ((done @ [?slot]) @ replicate (length zrs) None) w1"
        using Pair Inr by (simp only: GetRecords_fetch.simps slots prod.case sum.case) simp
      then show ?thesis
        using Pair Inr by (simp only: Cons.IH) (simp split: prod.splits sum.splits)
    qed
  qed
qed

lemma GetRecords_unqualify_eq:
  "GetRecords_unqualify lib zone slots =
     (if None \<in> set slots then None
      else Some (map (\<lambda>slot. unqualifyRecordNames lib (the slot) zone) slots))"
  by (induction lib zone slots rule: GetRecords_unqualify.induct) auto

lemma GetRecords_slots:
  assumes "length rrSets = length zrs"
  shows "GetRecords_unqualify lib zone
           (map2 (\<lambda>gcoreRecord rrSet.
                    if RRSet_Records rrSet = [] then None
                    else Some (listed_record cli gcoreRecord (last (RRSet_Records rrSet))))
              zrs rrSets) =
         (if \<exists>rrSet\<in>set rrSets. RRSet_Records rrSet = [] then None
          else Some (map2 (\<lambda>gcoreRecord rrSet.
                             unqualifyRecordNames lib
                               (listed_record cli gcoreRecord (last (RRSet_Records rrSet))) zone)
                       zrs rrSets))"
  using assms
proof (induction zrs rrSets rule: list_induct2')
  case (4 zr zrs rrSet rrSets)
  then show ?case by (cases "RRSet_Records rrSet = []") auto
qed simp_all

lemma GetRecords_eq:
  "GetRecords cli lib zone w =
     (case cli_Zone cli zone w of
        (Inl err, w1) \<Rightarrow> (Returned ([], Some (VendorError err)), w1)
      | (Inr gcoreZone, w1) \<Rightarrow>
          (case fetch_sets cli zone (Zone_Records gcoreZone) w1 of
             (Inl err, w2) \<Rightarrow> (Returned ([], Some (VendorError err)), w2)
           | (Inr rrSets, w2) \<Rightarrow>
               if \<exists>rrSet\<in>set rrSets. RRSet_Records rrSet = [] then (Panicked, w2)
               else (Returned
                       (map2 (\<lambda>gcoreRecord rrSet.
                                unqualifyRecordNames lib
                                  (listed_record cli gcoreRecord (last (RRSet_Records rrSet)))
                                  zone)
                          (Zone_Records gcoreZone) rrSets, None), w2)))"
proof -
  obtain res w1 where zone: "cli_Zone cli zone w = (res, w1)"
    by (metis surj_pair)
  show ?thesis
  proof (cases res)
    case (Inl err)
    then show ?thesis using zone by (simp add: GetRecords_def)
  next
    case (Inr gcoreZone)
    obtain res2 w2 where sets: "fetch_sets cli zone (Zone_Records gcoreZone) w1 = (res2, w2)"
      by (metis surj_pair)
    have fetch: "GetRecords_fetch cli zone 0 (Zone_Records gcoreZone)
                   (replicate (length (Zone_Records gcoreZone)) None) w1 =
       (case fetch_sets cli zone (Zone_Records gcoreZone) w1 of
          (Inl err, w') \<Rightarrow> (Inl err, w')
        | (Inr rrSets, w') \<Rightarrow>
            (Inr (map2 (\<lambda>gcoreRecord rrSet.
                          if RRSet_Records rrSet = [] then None
                          else Some (listed_record cli gcoreRecord (last (RRSet_Records rrSet))))
                    (Zone_Records gcoreZone) rrSets), w'))"
      using GetRecords_fetch_eq [of cli zone "[]" "Zone_Records gcoreZone" w1]
      by (simp split: prod.splits sum.splits)
    show ?thesis
    proof (cases res2)
      case (Inl err)
      then show ?thesis using zone Inr sets by (simp add: GetRecords_def fetch)
    next
      case inr: (Inr rrSets)
      have len: "length rrSets = length (Zone_Records gcoreZone)"
        using sets inr by (auto dest: fetch_sets_length)
      show ?thesis
        using zone Inr sets inr
        by (simp add: GetRecords_def fetch GetRecords_slots [OF len])
    qed
  qed
qed

lemma GetRecords_returned:
  assumes "GetRecords cli lib zone w = (Returned (records, None), w')"
  shows "\<exists>gcoreZone w1 rrSets.
           cli_Zone cli zone w = (Inr gcoreZone, w1)
         \<and> fetch_sets cli zone (Zone_Records gcoreZone) w1 = (Inr rrSets, w')
         \<and> length rrSets = length (Zone_Records gcoreZone)
         \<and> records = map2 (\<lambda>gcoreRecord rrSet.
                              unqualifyRecordNames lib
                                (listed_record cli gcoreRecord (last (RRSet_Records rrSet))) zone)
                        (Zone_Records gcoreZone) rrSets"
  using assms
  by (auto simp: GetRecords_eq dest: fetch_sets_length split: prod.splits sum.splits if_splits)

section \<open>The claims\<close>

text \<open>
  In the statements, \<open>cli\<close> is any client and \<open>lib\<close> any libdns, \<open>w\<close> the world before the
  call, \<open>order\<close> the order in which the run ranges over the map of \<^verbatim>\<open>AppendRecords\<close>. The
  examples use the zone \<^verbatim>\<open>example.com.\<close> and durations of 300 seconds.
\<close>

subsection \<open>C1: a value that is already present\<close>

text \<open>
  Claim C1 says that a record whose value is already in the fetched set is pushed back
  with no entry added for it. The loop does skip the entries that carry the value, but it
  appends inside the loop: by \<open>merge_loop_eq\<close> the set pushed is the fetched one followed
  by one new entry for each fetched entry whose value differs. Here the vendor holds
  \<^verbatim>\<open>5.6.7.8\<close> for \<^verbatim>\<open>www.example.com.\<close>. Appending \<^verbatim>\<open>1.2.3.4\<close> twice leaves the set with
  \<^verbatim>\<open>1.2.3.4\<close> in it twice: the second call fetches \<^verbatim>\<open>5.6.7.8\<close> and \<^verbatim>\<open>1.2.3.4\<close> and appends
  once more for \<^verbatim>\<open>5.6.7.8\<close>. \<^verbatim>\<open>SetRecords\<close> does the same on the set the first call left.
\<close>

theorem merge_repeats_present_value:
  "AppendRecords mem_client ref_libdns [''A''] ''example.com.''
     [Address ''www'' 300000000000 ''1.2.3.4'']
     (snd (snd (AppendRecords mem_client ref_libdns [''A''] ''example.com.''
        [Address ''www'' 300000000000 ''1.2.3.4'']
        ([((''example.com.'', ''www.example.com.'', ''A''),
           \<lparr>RRSet_Type = ''A'', RRSet_TTL = 300,
            RRSet_Records = [\<lparr>Content = [Any_string ''5.6.7.8''], Enabled = True\<rparr>]\<rparr>)],
         [])))) =
     (([Address ''www'' 300000000000 ''1.2.3.4''], None),
      [Address ''www.example.com.'' 300000000000 ''1.2.3.4''],
      ([((''example.com.'', ''www.example.com.'', ''A''),
         \<lparr>RRSet_Type = ''A'', RRSet_TTL = 300,
          RRSet_Records = [\<lparr>Content = [Any_string ''5.6.7.8''], Enabled = True\<rparr>,
                           \<lparr>Content = [Any_string ''1.2.3.4''], Enabled = True\<rparr>,
                           \<lparr>Content = [Any_string ''1.2.3.4''], Enabled = True\<rparr>]\<rparr>)],
       [Call_RRSet ''example.com.'' ''www.example.com.'' ''A'',
        Call_UpdateRRSet ''example.com.'' ''www.example.com.'' ''A''
          \<lparr>RRSet_Type = ''A'', RRSet_TTL = 300,
           RRSet_Records = [\<lparr>Content = [Any_string ''5.6.7.8''], Enabled = True\<rparr>,
                            \<lparr>Content = [Any_string ''1.2.3.4''], Enabled = True\<rparr>]\<rparr>,
        Call_RRSet ''example.com.'' ''www.example.com.'' ''A'',
        Call_UpdateRRSet ''example.com.'' ''www.example.com.'' ''A''
          \<lparr>RRSet_Type = ''A'', RRSet_TTL = 300,
           RRSet_Records = [\<lparr>Content = [Any_string ''5.6.7.8''], Enabled = True\<rparr>,
                            \<lparr>Content = [Any_string ''1.2.3.4''], Enabled = True\<rparr>,
                            \<lparr>Content = [Any_string ''1.2.3.4''], Enabled = True\<rparr>]\<rparr>]))
   \<and> SetRecords mem_client ref_libdns ''example.com.''
     [Address ''www'' 300000000000 ''1.2.3.4'']
     ([((''example.com.'', ''www.example.com.'', ''A''),
        \<lparr>RRSet_Type = ''A'', RRSet_TTL = 300,
         RRSet_Records = [\<lparr>Content = [Any_string ''5.6.7.8''], Enabled = True\<rparr>,
                          \<lparr>Content = [Any_string ''1.2.3.4''], Enabled = True\<rparr>]\<rparr>)], []) =
     (([Address ''www'' 300000000000 ''1.2.3.4''], None),
      [Address ''www.example.com.'' 300000000000 ''1.2.3.4''],
      ([((''example.com.'', ''www.example.com.'', ''A''),
         \<lparr>RRSet_Type = ''A'', RRSet_TTL = 300,
          RRSet_Records = [\<lparr>Content = [Any_string ''5.6.7.8''], Enabled = True\<rparr>,
                           \<lparr>Content = [Any_string ''1.2.3.4''], Enabled = True\<rparr>,
                           \<lparr>Content = [Any_string ''1.2.3.4''], Enabled = True\<rparr>]\<rparr>)],
       [Call_RRSet ''example.com.'' ''www.example.com.'' ''A'',
        Call_UpdateRRSet ''example.com.'' ''www.example.com.'' ''A''
          \<lparr>RRSet_Type = ''A'', RRSet_TTL = 300,
           RRSet_Records = [\<lparr>Content = [Any_string ''5.6.7.8''], Enabled = True\<rparr>,
                            \<lparr>Content = [Any_string ''1.2.3.4''], Enabled = True\<rparr>,
                            \<lparr>Content = [Any_string ''1.2.3.4''], Enabled = True\<rparr>]\<rparr>]))"
  by (simp add: op_eval mem_eval run_eval ref_eval)

subsection \<open>C2: qualify, then unqualify\<close>

text \<open>
  Claim C2. For a record of one of the six supported shapes, qualifying it against a zone
  and unqualifying the result against the same zone gives back the record that was
  parsed, and so its name. What the statement needs from libdns is written out: \<open>parse\<close>
  and \<open>shape\<close> say that the record reads as \<open>rr\<close>, one of the six shapes; \<open>reparse\<close> that
  \<^verbatim>\<open>Parse\<close> reads the qualified struct back from what \<^verbatim>\<open>RR()\<close> renders; \<open>inverse\<close> that
  \<^verbatim>\<open>RelativeName\<close> undoes \<^verbatim>\<open>AbsoluteName\<close> on this name and zone, which is what being
  relative to the zone means for a name (with the functions as libdns documents them, it
  holds of every name that is not empty and has no trailing dot, in a zone that is not
  empty: \<open>ref_names_round_trip\<close>).
\<close>

theorem qualify_unqualify_round_trip:
  assumes parse: "Parse lib (RR lib record) = Some rr"
    and shape: "supported rr"
    and reparse: "Parse lib (RR lib (with_Name (AbsoluteName lib (record_Name rr) zone) rr)) =
                    Some (with_Name (AbsoluteName lib (record_Name rr) zone) rr)"
    and inverse: "RelativeName lib (AbsoluteName lib (record_Name rr) zone) zone = record_Name rr"
  shows "unqualifyRecordNames lib (qualityRecordNames lib record zone) zone = rr
         \<and> record_Name (unqualifyRecordNames lib (qualityRecordNames lib record zone) zone)
             = record_Name rr"
proof -
  let ?q = "with_Name (AbsoluteName lib (record_Name rr) zone) rr"
  have q: "qualityRecordNames lib record zone = ?q"
    using parse shape by (rule qualityRecordNames_supported)
  have "unqualifyRecordNames lib ?q zone = with_Name (RelativeName lib (record_Name ?q) zone) ?q"
    using reparse by (rule unqualifyRecordNames_supported) (simp add: supported_with_Name shape)
  also have "\<dots> = rr"
    by (simp add: record_Name_with_Name with_Name_with_Name inverse with_Name_record_Name)
  finally show ?thesis using q by simp
qed

text \<open>
  The round trip on one record of each shape, the zone's root \<^verbatim>\<open>@\<close> among the names.
\<close>

theorem qualify_unqualify_round_trip_witness:
  "unqualifyRecordNames ref_libdns
     (qualityRecordNames ref_libdns (Address ''www'' 300000000000 ''1.2.3.4'') ''example.com.'')
     ''example.com.'' = Address ''www'' 300000000000 ''1.2.3.4''
   \<and> unqualifyRecordNames ref_libdns
     (qualityRecordNames ref_libdns (CNAME ''blog'' 300000000000 ''www'') ''example.com.'')
     ''example.com.'' = CNAME ''blog'' 300000000000 ''www''
   \<and> unqualifyRecordNames ref_libdns
     (qualityRecordNames ref_libdns (TXT ''@'' 300000000000 ''v=spf1 -all'') ''example.com.'')
     ''example.com.'' = TXT ''@'' 300000000000 ''v=spf1 -all''
   \<and> unqualifyRecordNames ref_libdns
     (qualityRecordNames ref_libdns (MX ''@'' 300000000000 10 ''mx.example.net.'') ''example.com.'')
     ''example.com.'' = MX ''@'' 300000000000 10 ''mx.example.net.''
   \<and> unqualifyRecordNames ref_libdns
     (qualityRecordNames ref_libdns (NS ''sub'' 300000000000 ''ns1.example.net.'') ''example.com.'')
     ''example.com.'' = NS ''sub'' 300000000000 ''ns1.example.net.''
   \<and> unqualifyRecordNames ref_libdns
     (qualityRecordNames ref_libdns
        (SRV ''voip'' 300000000000 ''sip'' ''tcp'' 10 20 ''host.example.net.'' 5060) ''example.com.'')
     ''example.com.'' = SRV ''voip'' 300000000000 ''sip'' ''tcp'' 10 20 ''host.example.net.'' 5060"
  (is "?A \<and> ?B \<and> ?C \<and> ?D \<and> ?E \<and> ?F")
proof -
  have ?A
    by (rule qualify_unqualify_round_trip [THEN conjunct1]) (simp_all add: ref_eval)
  moreover have ?B
    by (rule qualify_unqualify_round_trip [THEN conjunct1]) (simp_all add: ref_eval)
  moreover have ?C
    by (rule qualify_unqualify_round_trip [THEN conjunct1]) (simp_all add: ref_eval)
  moreover have ?D
    by (rule qualify_unqualify_round_trip [THEN conjunct1]) (simp_all add: ref_eval)
  moreover have ?E
    by (rule qualify_unqualify_round_trip [THEN conjunct1]) (simp_all add: ref_eval)
  moreover have ?F
    by (rule qualify_unqualify_round_trip [THEN conjunct1]) (simp_all add: ref_eval)
  ultimately show ?thesis by blast
qed

subsection \<open>C3: appending where the vendor has no set\<close>

text \<open>
  Claim C3. Take any point of a run of \<^verbatim>\<open>AppendRecords\<close>: the records \<open>before\<close> have been
  processed, leaving the vendor in state \<open>s\<close>, and the fetch for the next record fails with
  \<open>err\<close>. If \<open>err\<close> contains \<^verbatim>\<open>404: record is not found\<close>, the provider pushes
  \<open>created_RRSet\<close> (one enabled entry holding the record's value, the TTL being the record's
  in seconds, the type the record's) and, when the push succeeds, goes on with the record
  appended to the added ones; when the push fails, the call returns that error. If \<open>err\<close>
  is any other error, the call returns nil and \<open>err\<close>, the fetch being its last vendor call.
\<close>

theorem AppendRecords_creates_on_not_found:
  assumes sched: "schedule (group_by_type lib (qualify_in_place lib zone records)) order =
                    before @ (recordType, record) # after"
    and pre: "AppendRecords_seq cli lib zone before [] w = (Inr addedRecords, (s, calls))"
    and fetch: "RRSet cli zone (RR_Name (RR lib record)) recordType s = (Inl err, s1)"
  shows "recordType = RR_Type (RR lib record)
    \<and> RRSet_TTL (created_RRSet lib recordType record) = Seconds lib (RR_TTL (RR lib record))
    \<and> RRSet_Records (created_RRSet lib recordType record) =
        [\<lparr>Content = [Any_string (RR_Data (RR lib record))], Enabled = True\<rparr>]
    \<and> (Contains err ''404: record is not found'' \<longrightarrow>
         (\<forall>s2. UpdateRRSet cli zone (RR_Name (RR lib record)) recordType
                  (created_RRSet lib recordType record) s1 = (None, s2) \<longrightarrow>
            AppendRecords cli lib order zone records w =
              finish lib zone (qualify_in_place lib zone records)
                (AppendRecords_seq cli lib zone after (addedRecords @ [record])
                   (s2, calls @ [Call_RRSet zone (RR_Name (RR lib record)) recordType,
                                 Call_UpdateRRSet zone (RR_Name (RR lib record)) recordType
                                   (created_RRSet lib recordType record)])))
         \<and> (\<forall>err2 s2. UpdateRRSet cli zone (RR_Name (RR lib record)) recordType
                  (created_RRSet lib recordType record) s1 = (Some err2, s2) \<longrightarrow>
            AppendRecords cli lib order zone records w =
              (([], Some (VendorError err2)), qualify_in_place lib zone records,
               (s2, calls @ [Call_RRSet zone (RR_Name (RR lib record)) recordType,
                             Call_UpdateRRSet zone (RR_Name (RR lib record)) recordType
                               (created_RRSet lib recordType record)]))))
    \<and> (\<not> Contains err ''404: record is not found'' \<longrightarrow>
         AppendRecords cli lib order zone records w =
           (([], Some (VendorError err)), qualify_in_place lib zone records,
            (s1, calls @ [Call_RRSet zone (RR_Name (RR lib record)) recordType])))"
proof -
  have "(recordType, record) \<in>
          set (schedule (group_by_type lib (qualify_in_place lib zone records)) order)"
    by (simp add: sched)
  then have type: "recordType = RR_Type (RR lib record)"
    by (auto dest: in_schedule_group)
  have run: "AppendRecords cli lib order zone records w =
      finish lib zone (qualify_in_place lib zone records)
        (case AppendRecords_body cli lib zone recordType record addedRecords (s, calls) of
           (Inl e, w') \<Rightarrow> (Inl e, w')
         | (Inr acc', w') \<Rightarrow> AppendRecords_seq cli lib zone after acc' w')"
    by (simp add: AppendRecords_eq sched AppendRecords_seq_append pre)
  note body = AppendRecords_body_fetch_error [OF fetch, of addedRecords calls]
  have made: "RRSet_TTL (created_RRSet lib recordType record) = Seconds lib (RR_TTL (RR lib record))
    \<and> RRSet_Records (created_RRSet lib recordType record) =
        [\<lparr>Content = [Any_string (RR_Data (RR lib record))], Enabled = True\<rparr>]"
    by (simp add: created_RRSet_def)
  have found: "Contains err ''404: record is not found'' \<longrightarrow>
         (\<forall>s2. UpdateRRSet cli zone (RR_Name (RR lib record)) recordType
                  (created_RRSet lib recordType record) s1 = (None, s2) \<longrightarrow>
            AppendRecords cli lib order zone records w =
              finish lib zone (qualify_in_place lib zone records)
                (AppendRecords_seq cli lib zone after (addedRecords @ [record])
                   (s2, calls @ [Call_RRSet zone (RR_Name (RR lib record)) recordType,
                                 Call_UpdateRRSet zone (RR_Name (RR lib record)) recordType
                                   (created_RRSet lib recordType record)])))
         \<and> (\<forall>err2 s2. UpdateRRSet cli zone (RR_Name (RR lib record)) recordType
                  (created_RRSet lib recordType record) s1 = (Some err2, s2) \<longrightarrow>
            AppendRecords cli lib order zone records w =
              (([], Some (VendorError err2)), qualify_in_place lib zone records,
               (s2, calls @ [Call_RRSet zone (RR_Name (RR lib record)) recordType,
                             Call_UpdateRRSet zone (RR_Name (RR lib record)) recordType
                               (created_RRSet lib recordType record)])))"
    by (simp add: run body finish_Inl)
  have other: "\<not> Contains err ''404: record is not found'' \<longrightarrow>
         AppendRecords cli lib order zone records w =
           (([], Some (VendorError err)), qualify_in_place lib zone records,
            (s1, calls @ [Call_RRSet zone (RR_Name (RR lib record)) recordType]))"
    by (simp add: run body finish_Inl)
  from type made found other show ?thesis by blast
qed

text \<open>
  Both cases on an input: a vendor with no set for \<^verbatim>\<open>www.example.com.\<close>, and a vendor
  that answers 429.
\<close>

theorem AppendRecords_creates_on_not_found_witness:
  "AppendRecords mem_client ref_libdns [''A''] ''example.com.''
     [Address ''www'' 300000000000 ''1.2.3.4''] ([], []) =
     (([Address ''www'' 300000000000 ''1.2.3.4''], None),
      [Address ''www.example.com.'' 300000000000 ''1.2.3.4''],
      ([((''example.com.'', ''www.example.com.'', ''A''),
         \<lparr>RRSet_Type = ''A'', RRSet_TTL = 300,
          RRSet_Records = [\<lparr>Content = [Any_string ''1.2.3.4''], Enabled = True\<rparr>]\<rparr>)],
       [Call_RRSet ''example.com.'' ''www.example.com.'' ''A'',
        Call_UpdateRRSet ''example.com.'' ''www.example.com.'' ''A''
          \<lparr>RRSet_Type = ''A'', RRSet_TTL = 300,
           RRSet_Records = [\<lparr>Content = [Any_string ''1.2.3.4''], Enabled = True\<rparr>]\<rparr>]))
   \<and> AppendRecords limited_client ref_libdns [''A''] ''example.com.''
       [Address ''www'' 300000000000 ''1.2.3.4''] ((0, []), []) =
     (([], Some (VendorError ''429: too many requests'')),
      [Address ''www.example.com.'' 300000000000 ''1.2.3.4''],
      ((0, []), [Call_RRSet ''example.com.'' ''www.example.com.'' ''A'']))"
  (is "?A \<and> ?B")
proof -
  have sched: "schedule (group_by_type ref_libdns (qualify_in_place ref_libdns ''example.com.''
                  [Address ''www'' 300000000000 ''1.2.3.4''])) [''A''] =
               [] @ (''A'', Address ''www.example.com.'' 300000000000 ''1.2.3.4'') # []"
    by (simp add: run_eval ref_eval)
  have pre1: "AppendRecords_seq mem_client ref_libdns ''example.com.'' [] [] ([], []) =
                (Inr [], ([], []))"
    by simp
  have fetch1: "RRSet mem_client ''example.com.''
                  (RR_Name (RR ref_libdns (Address ''www.example.com.'' 300000000000 ''1.2.3.4'')))
                  ''A'' [] = (Inl ''404: record is not found'', [])"
    by (simp add: mem_eval ref_eval)
  have pre2: "AppendRecords_seq limited_client ref_libdns ''example.com.'' [] [] ((0, []), []) =
                (Inr [], ((0, []), []))"
    by simp
  have fetch2: "RRSet limited_client ''example.com.''
                  (RR_Name (RR ref_libdns (Address ''www.example.com.'' 300000000000 ''1.2.3.4'')))
                  ''A'' (0, []) = (Inl ''429: too many requests'', (0, []))"
    by (simp add: mem_eval ref_eval)
  from AppendRecords_creates_on_not_found [OF sched pre1 fetch1]
  have ?A by (simp add: mem_eval run_eval ref_eval)
  moreover from AppendRecords_creates_on_not_found [OF sched pre2 fetch2]
  have ?B by (simp add: mem_eval run_eval ref_eval)
  ultimately show ?thesis by blast
qed

subsection \<open>C4: one record per index entry\<close>

text \<open>
  Claim C4. \<^verbatim>\<open>GetRecords\<close> in full: it fetches the zone's index and then the set of every
  entry, returning nil and the error of the first call that fails. When all succeed it
  returns one record per entry, in the order of the index: the record built from the
  entry and the last value of its set, passed through \<^verbatim>\<open>unqualifyRecordNames\<close>. The
  earlier values of a set are overwritten in the entry's slot. (A set without any value
  leaves its slot nil, and the second loop then panics.) So a list that is returned
  without error is as long as the index.
\<close>

theorem GetRecords_one_record_per_entry:
  "GetRecords cli lib zone w =
     (case cli_Zone cli zone w of
        (Inl err, w1) \<Rightarrow> (Returned ([], Some (VendorError err)), w1)
      | (Inr gcoreZone, w1) \<Rightarrow>
          (case fetch_sets cli zone (Zone_Records gcoreZone) w1 of
             (Inl err, w2) \<Rightarrow> (Returned ([], Some (VendorError err)), w2)
           | (Inr rrSets, w2) \<Rightarrow>
               if \<exists>rrSet\<in>set rrSets. RRSet_Records rrSet = [] then (Panicked, w2)
               else (Returned
                       (map2 (\<lambda>gcoreRecord rrSet.
                                unqualifyRecordNames lib
                                  (listed_record cli gcoreRecord (last (RRSet_Records rrSet)))
                                  zone)
                          (Zone_Records gcoreZone) rrSets, None), w2)))
   \<and> (\<forall>records w'. GetRecords cli lib zone w = (Returned (records, None), w') \<longrightarrow>
         (\<exists>gcoreZone w1. cli_Zone cli zone w = (Inr gcoreZone, w1)
            \<and> length records = length (Zone_Records gcoreZone)))"
proof -
  have "\<exists>gcoreZone w1. cli_Zone cli zone w = (Inr gcoreZone, w1)
            \<and> length records = length (Zone_Records gcoreZone)"
    if "GetRecords cli lib zone w = (Returned (records, None), w')" for records w'
    using GetRecords_returned [OF that] by auto
  with GetRecords_eq [of cli lib zone w] show ?thesis by blast
qed

text \<open>
  A zone with two entries, the first with two values: two records come back, the first
  holding the later value \<^verbatim>\<open>1.2.3.4\<close> only.
\<close>

theorem GetRecords_one_record_per_entry_witness:
  "GetRecords mem_client ref_libdns ''example.com.''
     ([((''example.com.'', ''www.example.com.'', ''A''),
        \<lparr>RRSet_Type = ''A'', RRSet_TTL = 300,
         RRSet_Records = [\<lparr>Content = [Any_string ''5.6.7.8''], Enabled = True\<rparr>,
                          \<lparr>Content = [Any_string ''1.2.3.4''], Enabled = True\<rparr>]\<rparr>),
       ((''example.com.'', ''example.com.'', ''TXT''),
        \<lparr>RRSet_Type = ''TXT'', RRSet_TTL = 60,
         RRSet_Records = [\<lparr>Content = [Any_string ''v=spf1 -all''], Enabled = True\<rparr>]\<rparr>)], []) =
     (Returned ([Address ''www'' 300000000000 ''1.2.3.4'', TXT ''@'' 60000000000 ''v=spf1 -all''],
                None),
      ([((''example.com.'', ''www.example.com.'', ''A''),
        \<lparr>RRSet_Type = ''A'', RRSet_TTL = 300,
         RRSet_Records = [\<lparr>Content = [Any_string ''5.6.7.8''], Enabled = True\<rparr>,
                          \<lparr>Content = [Any_string ''1.2.3.4''], Enabled = True\<rparr>]\<rparr>),
       ((''example.com.'', ''example.com.'', ''TXT''),
        \<lparr>RRSet_Type = ''TXT'', RRSet_TTL = 60,
         RRSet_Records = [\<lparr>Content = [Any_string ''v=spf1 -all''], Enabled = True\<rparr>]\<rparr>)],
       [Call_Zone ''example.com.'',
        Call_RRSet ''example.com.'' ''www.example.com.'' ''A'',
        Call_RRSet ''example.com.'' ''example.com.'' ''TXT'']))"
  (is "GetRecords _ _ _ ?w = _")
proof -
  have zone: "cli_Zone mem_client ''example.com.'' ?w =
      (Inr \<lparr>Zone_Records =
              [\<lparr>ZoneRecord_Name = ''www.example.com.'', ZoneRecord_Type = ''A'',
                ZoneRecord_TTL = 300\<rparr>,
               \<lparr>ZoneRecord_Name = ''example.com.'', ZoneRecord_Type = ''TXT'',
                ZoneRecord_TTL = 60\<rparr>]\<rparr>,
       (fst ?w, [Call_Zone ''example.com.'']))"
    by (simp add: mem_eval run_eval)
  from GetRecords_one_record_per_entry [of mem_client ref_libdns "''example.com.''" ?w,
      THEN conjunct1]
  show ?thesis
    by (simp add: zone) (simp add: mem_eval run_eval ref_eval)
qed

subsection \<open>C5: what AppendRecords qualifies\<close>

text \<open>
  Claim C5, amended. Before any vendor call \<^verbatim>\<open>AppendRecords\<close> replaces every input record
  by \<^verbatim>\<open>qualityRecordNames(record, zone)\<close>: the caller's slice ends as that list, and every
  vendor call of the run is a fetch or a push for the name and type of one of its
  elements. \<^verbatim>\<open>qualityRecordNames\<close> gives a record that parses to one of the six shapes the
  name \<^verbatim>\<open>AbsoluteName(name, zone)\<close> and copies every other field; a record that does not
  parse, or parses to anything else, is returned as it is. In particular a CNAME keeps
  its target as given: no code qualifies it.
\<close>

theorem AppendRecords_qualifies_names:
  "fst (snd (AppendRecords cli lib order zone records w)) =
     map (\<lambda>record. qualityRecordNames lib record zone) records
   \<and> (\<exists>new. snd (snd (snd (AppendRecords cli lib order zone records w))) = snd w @ new
         \<and> (\<forall>c\<in>set new. \<exists>q\<in>set (map (\<lambda>record. qualityRecordNames lib record zone) records).
               call_for lib zone q c))
   \<and> qualityRecordNames lib r zone =
       (case Parse lib (RR lib r) of
          None \<Rightarrow> r
        | Some rr \<Rightarrow>
            if supported rr then with_Name (AbsoluteName lib (record_Name rr) zone) rr else r)
   \<and> (Parse lib (RR lib r) = Some (CNAME name ttl target) \<longrightarrow>
        qualityRecordNames lib r zone = CNAME (AbsoluteName lib name zone) ttl target)"
proof -
  have slice: "qualify_in_place lib zone records =
                 map (\<lambda>record. qualityRecordNames lib record zone) records"
    by (simp add: qualify_in_place_def)
  have a: "fst (snd (AppendRecords cli lib order zone records w)) =
             map (\<lambda>record. qualityRecordNames lib record zone) records"
    by (simp only: AppendRecords_eq finish_parts slice)
  have c: "Parse lib (RR lib r) = Some (CNAME name ttl target) \<longrightarrow>
        qualityRecordNames lib r zone = CNAME (AbsoluteName lib name zone) ttl target"
    by (simp add: qualityRecordNames_def)
  from a AppendRecords_calls [of cli lib order zone records w, unfolded slice]
    qualityRecordNames_eq [of lib r zone] c
  show ?thesis by (intro conjI)
qed

text \<open>
  On a CNAME \<^verbatim>\<open>blog\<close> with the target \<^verbatim>\<open>www\<close>: the name becomes \<^verbatim>\<open>blog.example.com.\<close>, the
  target stays \<^verbatim>\<open>www\<close>.
\<close>

theorem AppendRecords_qualifies_names_witness:
  "Parse ref_libdns (RR ref_libdns (CNAME ''blog'' 300000000000 ''www'')) =
     Some (CNAME ''blog'' 300000000000 ''www'')
   \<and> qualityRecordNames ref_libdns (CNAME ''blog'' 300000000000 ''www'') ''example.com.'' =
     CNAME ''blog.example.com.'' 300000000000 ''www''
   \<and> fst (snd (AppendRecords mem_client ref_libdns [''CNAME''] ''example.com.''
       [CNAME ''blog'' 300000000000 ''www''] ([], []))) =
     [CNAME ''blog.example.com.'' 300000000000 ''www'']"
  (is "?P \<and> ?Q \<and> ?S")
proof -
  note T = AppendRecords_qualifies_names [of mem_client ref_libdns "[''CNAME'']"
      "''example.com.''" "[CNAME ''blog'' 300000000000 ''www'']" "([], [])"
      "CNAME ''blog'' 300000000000 ''www''" "''blog''" 300000000000 "''www''"]
  have p: ?P by (simp add: ref_eval)
  from T [THEN conjunct2, THEN conjunct2, THEN conjunct2, THEN mp, OF p]
  have q: ?Q by (simp add: ref_eval)
  from T [THEN conjunct1] have ?S by (simp add: q)
  with p q show ?thesis by blast
qed

text \<open>
  Claim C5 as stated fails on that input: the value pushed to the vendor for the CNAME is
  the target \<^verbatim>\<open>www\<close> as the caller gave it, which is not a fully-qualified name.
\<close>

theorem CNAME_target_left_as_given:
  "AppendRecords mem_client ref_libdns [''CNAME''] ''example.com.''
     [CNAME ''blog'' 300000000000 ''www''] ([], []) =
     (([CNAME ''blog'' 300000000000 ''www''], None),
      [CNAME ''blog.example.com.'' 300000000000 ''www''],
      ([((''example.com.'', ''blog.example.com.'', ''CNAME''),
         \<lparr>RRSet_Type = ''CNAME'', RRSet_TTL = 300,
          RRSet_Records = [\<lparr>Content = [Any_string ''www''], Enabled = True\<rparr>]\<rparr>)],
       [Call_RRSet ''example.com.'' ''blog.example.com.'' ''CNAME'',
        Call_UpdateRRSet ''example.com.'' ''blog.example.com.'' ''CNAME''
          \<lparr>RRSet_Type = ''CNAME'', RRSet_TTL = 300,
           RRSet_Records = [\<lparr>Content = [Any_string ''www''], Enabled = True\<rparr>]\<rparr>]))"
  by (simp add: op_eval mem_eval run_eval ref_eval)

subsection \<open>C6: SetRecords against AppendRecords\<close>



subsection \<open>C7: the names of returned records\<close>

text \<open>
  Claim C7, amended. Every record in the list \<^verbatim>\<open>AppendRecords\<close> returns is
  \<^verbatim>\<open>unqualifyRecordNames\<close> of a qualified input record (all of them, in the order they
  were processed), and every record in the list \<^verbatim>\<open>GetRecords\<close> returns is
  \<^verbatim>\<open>unqualifyRecordNames\<close> of a record built from an index entry. \<^verbatim>\<open>unqualifyRecordNames\<close>
  gives a record that parses to one of the six shapes the name \<^verbatim>\<open>RelativeName(name, zone)\<close>;
  a record that does not parse, or parses to anything else, is returned with its name
  unchanged.
\<close>

theorem returned_records_pass_through_unqualify:
  "(\<forall>rs recs w'. AppendRecords cli lib order zone records w = ((rs, None), recs, w') \<longrightarrow>
      rs = map (\<lambda>q. unqualifyRecordNames lib q zone)
             (map snd (schedule (group_by_type lib
                (map (\<lambda>record. qualityRecordNames lib record zone) records)) order)))
   \<and> (\<forall>rs w'. GetRecords cli lib zone w = (Returned (rs, None), w') \<longrightarrow>
        (\<forall>r\<in>set rs. \<exists>gcoreRecord rr.
            r = unqualifyRecordNames lib (listed_record cli gcoreRecord rr) zone))
   \<and> unqualifyRecordNames lib r zone =
       (case Parse lib (RR lib r) of
          None \<Rightarrow> r
        | Some rr \<Rightarrow>
            if supported rr then with_Name (RelativeName lib (record_Name rr) zone) rr else r)"
proof -
  have slice: "qualify_in_place lib zone records =
                 map (\<lambda>record. qualityRecordNames lib record zone) records"
    by (simp add: qualify_in_place_def)
  have a: "rs = map (\<lambda>q. unqualifyRecordNames lib q zone)
             (map snd (schedule (group_by_type lib
                (map (\<lambda>record. qualityRecordNames lib record zone) records)) order))"
    if run: "AppendRecords cli lib order zone records w = ((rs, None), sl, w')" for rs sl w'
  proof -
    let ?xs = "schedule (group_by_type lib (qualify_in_place lib zone records)) order"
    obtain res w1 where seq: "AppendRecords_seq cli lib zone ?xs [] w = (res, w1)"
      by (metis surj_pair)
    show ?thesis
    proof (cases res)
      case (Inl err)
      with run seq show ?thesis by (simp add: AppendRecords_eq finish_def)
    next
      case (Inr added)
      with seq have added: "added = map snd ?xs" by (auto dest: AppendRecords_seq_Inr)
      have "AppendRecords cli lib order zone records w =
              ((map (\<lambda>q. unqualifyRecordNames lib q zone) added, None),
               qualify_in_place lib zone records, w1)"
        using seq Inr by (simp only: AppendRecords_eq finish_Inr)
      with run have "rs = map (\<lambda>q. unqualifyRecordNames lib q zone) added" by simp
      then show ?thesis unfolding added slice .
    qed
  qed
  have g: "\<forall>r\<in>set rs. \<exists>gcoreRecord rr.
            r = unqualifyRecordNames lib (listed_record cli gcoreRecord rr) zone"
    if "GetRecords cli lib zone w = (Returned (rs, None), w')" for rs w'
    using GetRecords_returned [OF that] by (auto simp: set_zip) blast
  from a g unqualifyRecordNames_eq [of lib r zone] show ?thesis by blast
qed

text \<open>An address record, through \<^verbatim>\<open>AppendRecords\<close> and through \<^verbatim>\<open>GetRecords\<close>.\<close>

theorem returned_records_pass_through_unqualify_witness:
  "AppendRecords mem_client ref_libdns [''A''] ''example.com.''
       [Address ''www'' 300000000000 ''1.2.3.4''] ([], []) =
     (([Address ''www'' 300000000000 ''1.2.3.4''], None),
      [Address ''www.example.com.'' 300000000000 ''1.2.3.4''],
      ([((''example.com.'', ''www.example.com.'', ''A''),
         \<lparr>RRSet_Type = ''A'', RRSet_TTL = 300,
          RRSet_Records = [\<lparr>Content = [Any_string ''1.2.3.4''], Enabled = True\<rparr>]\<rparr>)],
       [Call_RRSet ''example.com.'' ''www.example.com.'' ''A'',
        Call_UpdateRRSet ''example.com.'' ''www.example.com.'' ''A''
          \<lparr>RRSet_Type = ''A'', RRSet_TTL = 300,
           RRSet_Records = [\<lparr>Content = [Any_string ''1.2.3.4''], Enabled = True\<rparr>]\<rparr>]))
   \<and> [Address ''www'' 300000000000 ''1.2.3.4''] =
       map (\<lambda>q. unqualifyRecordNames ref_libdns q ''example.com.'')
         (map snd (schedule (group_by_type ref_libdns
            (map (\<lambda>record. qualityRecordNames ref_libdns record ''example.com.'')
               [Address ''www'' 300000000000 ''1.2.3.4''])) [''A'']))
   \<and> GetRecords mem_client ref_libdns ''example.com.''
       ([((''example.com.'', ''www.example.com.'', ''A''),
          \<lparr>RRSet_Type = ''A'', RRSet_TTL = 300,
           RRSet_Records = [\<lparr>Content = [Any_string ''1.2.3.4''], Enabled = True\<rparr>]\<rparr>)], []) =
     (Returned ([Address ''www'' 300000000000 ''1.2.3.4''], None),
      ([((''example.com.'', ''www.example.com.'', ''A''),
          \<lparr>RRSet_Type = ''A'', RRSet_TTL = 300,
           RRSet_Records = [\<lparr>Content = [Any_string ''1.2.3.4''], Enabled = True\<rparr>]\<rparr>)],
       [Call_Zone ''example.com.'', Call_RRSet ''example.com.'' ''www.example.com.'' ''A'']))
   \<and> (\<exists>gcoreRecord rr.
         Address ''www'' 300000000000 ''1.2.3.4'' =
           unqualifyRecordNames ref_libdns (listed_record mem_client gcoreRecord rr)
             ''example.com.'')"
  (is "?A \<and> ?B \<and> ?G \<and> ?H")
proof -
  have a: ?A by (simp add: op_eval mem_eval run_eval ref_eval)
  have g: ?G by (simp add: op_eval mem_eval run_eval ref_eval)
  from returned_records_pass_through_unqualify [THEN conjunct1, rule_format, OF a]
  have b: ?B .
  from returned_records_pass_through_unqualify [THEN conjunct2, THEN conjunct1, rule_format, OF g]
  have h: ?H by simp
  from a b g h show ?thesis by blast
qed

text \<open>
  Claim C7 as stated fails for a record type outside the six shapes: the CAA record of
  \<^verbatim>\<open>www.example.com.\<close> is returned by \<^verbatim>\<open>GetRecords\<close> under its absolute name.
\<close>

theorem unsupported_type_keeps_absolute_name:
  "GetRecords mem_client ref_libdns ''example.com.''
     ([((''example.com.'', ''www.example.com.'', ''CAA''),
        \<lparr>RRSet_Type = ''CAA'', RRSet_TTL = 300,
         RRSet_Records = [\<lparr>Content = [Any_number 0, Any_string ''issue'',
                                        Any_string ''letsencrypt.org''],
                           Enabled = True\<rparr>]\<rparr>)], []) =
     (Returned ([RR_Record \<lparr>RR_Name = ''www.example.com.'', RR_TTL = 300000000000,
                            RR_Type = ''CAA'', RR_Data = ''0 issue letsencrypt.org''\<rparr>], None),
      ([((''example.com.'', ''www.example.com.'', ''CAA''),
        \<lparr>RRSet_Type = ''CAA'', RRSet_TTL = 300,
         RRSet_Records = [\<lparr>Content = [Any_number 0, Any_string ''issue'',
                                        Any_string ''letsencrypt.org''],
                           Enabled = True\<rparr>]\<rparr>)],
       [Call_Zone ''example.com.'', Call_RRSet ''example.com.'' ''www.example.com.'' ''CAA'']))"
  by (simp add: op_eval mem_eval run_eval ref_eval)

subsection \<open>C8: a deletion that fails\<close>



subsection \<open>C9: a failure in the middle of a batch\<close>

text \<open>
  Claim C9, amended. In each of the three writing operations, when the records \<open>before\<close>
  have been processed and the iteration for the next record fails with \<open>err\<close>, the
  operation stops there: the world it leaves is the one that iteration left, so nothing
  is done for the records after it and what was done for the records before it stays
  done. It returns nil together with \<open>err\<close>: the records processed so far (\<open>done\<close>, equal
  to \<open>before\<close>) are dropped from the return value, which tells the caller nothing about
  them.
\<close>

theorem batch_stops_at_first_failure:
  "(schedule (group_by_type lib (map (\<lambda>record. qualityRecordNames lib record zone) records)) order
      = before @ (recordType, r) # after
    \<and> AppendRecords_seq cli lib zone before [] w = (Inr done, w1)
    \<and> AppendRecords_body cli lib zone recordType r done w1 = (Inl err, w2)
    \<longrightarrow> done = map snd before
      \<and> AppendRecords cli lib order zone records w =
          (([], Some err), map (\<lambda>record. qualityRecordNames lib record zone) records, w2))
   \<and> (map (\<lambda>record. qualityRecordNames lib record zone) records = before' @ r' # after'
    \<and> SetRecords_loop cli lib zone before' [] w = (Inr done', w1')
    \<and> SetRecords_body cli lib zone r' done' w1' = (Inl err', w2')
    \<longrightarrow> done' = before'
      \<and> SetRecords cli lib zone records w =
          (([], Some err'), map (\<lambda>record. qualityRecordNames lib record zone) records, w2'))
   \<and> (map (\<lambda>record. qualityRecordNames lib record zone) records = before' @ r' # after'
    \<and> DeleteRecords_loop cli lib zone before' [] w = (Inr done'', w1'')
    \<and> DeleteRecords_body cli lib zone r' done'' w1'' = (Inl err'', w2'')
    \<longrightarrow> done'' = before'
      \<and> DeleteRecords cli lib zone records w =
          (([], Some err''), map (\<lambda>record. qualityRecordNames lib record zone) records, w2''))"
proof -
  have slice: "qualify_in_place lib zone records =
                 map (\<lambda>record. qualityRecordNames lib record zone) records"
    by (simp add: qualify_in_place_def)
  have a: "done = map snd before
      \<and> AppendRecords cli lib order zone records w =
          (([], Some err), map (\<lambda>record. qualityRecordNames lib record zone) records, w2)"
    if "schedule (group_by_type lib (map (\<lambda>record. qualityRecordNames lib record zone) records))
          order = before @ (recordType, r) # after"
      and "AppendRecords_seq cli lib zone before [] w = (Inr done, w1)"
      and "AppendRecords_body cli lib zone recordType r done w1 = (Inl err, w2)"
    using that AppendRecords_seq_Inr [OF that(2)]
    by (simp add: AppendRecords_eq slice AppendRecords_seq_append finish_Inl)
  have s: "done' = before'
      \<and> SetRecords cli lib zone records w =
          (([], Some err'), map (\<lambda>record. qualityRecordNames lib record zone) records, w2')"
    if "map (\<lambda>record. qualityRecordNames lib record zone) records = before' @ r' # after'"
      and "SetRecords_loop cli lib zone before' [] w = (Inr done', w1')"
      and "SetRecords_body cli lib zone r' done' w1' = (Inl err', w2')"
    using that SetRecords_loop_Inr [OF that(2)]
    by (simp add: SetRecords_eq slice SetRecords_loop_append finish_Inl)
  have d: "done'' = before'
      \<and> DeleteRecords cli lib zone records w =
          (([], Some err''), map (\<lambda>record. qualityRecordNames lib record zone) records, w2'')"
    if "map (\<lambda>record. qualityRecordNames lib record zone) records = before' @ r' # after'"
      and "DeleteRecords_loop cli lib zone before' [] w = (Inr done'', w1'')"
      and "DeleteRecords_body cli lib zone r' done'' w1'' = (Inl err'', w2'')"
    using that DeleteRecords_loop_Inr [OF that(2)]
    by (simp add: DeleteRecords_eq slice DeleteRecords_loop_append finish_Inl)
  from a s d show ?thesis by blast
qed

text \<open>
  A batch of two records whose second fails: for \<^verbatim>\<open>AppendRecords\<close> on a vendor that allows
  two more requests, for \<^verbatim>\<open>SetRecords\<close> and \<^verbatim>\<open>DeleteRecords\<close> on a vendor that has a set
  for \<^verbatim>\<open>www.example.com.\<close> only.
\<close>

theorem batch_stops_at_first_failure_witness:
  "AppendRecords limited_client ref_libdns [''A''] ''example.com.''
     [Address ''www'' 300000000000 ''1.2.3.4'', Address ''ftp'' 300000000000 ''9.9.9.9'']
     ((2, []), []) =
     (([], Some (VendorError ''429: too many requests'')),
      [Address ''www.example.com.'' 300000000000 ''1.2.3.4'',
       Address ''ftp.example.com.'' 300000000000 ''9.9.9.9''],
      ((0, [((''example.com.'', ''www.example.com.'', ''A''),
             \<lparr>RRSet_Type = ''A'', RRSet_TTL = 300,
              RRSet_Records = [\<lparr>Content = [Any_string ''1.2.3.4''], Enabled = True\<rparr>]\<rparr>)]),
       [Call_RRSet ''example.com.'' ''www.example.com.'' ''A'',
        Call_UpdateRRSet ''example.com.'' ''www.example.com.'' ''A''
          \<lparr>RRSet_Type = ''A'', RRSet_TTL = 300,
           RRSet_Records = [\<lparr>Content = [Any_string ''1.2.3.4''], Enabled = True\<rparr>]\<rparr>,
        Call_RRSet ''example.com.'' ''ftp.example.com.'' ''A'']))
   \<and> SetRecords mem_client ref_libdns ''example.com.''
     [Address ''www'' 300000000000 ''1.2.3.4'', Address ''ftp'' 300000000000 ''9.9.9.9'']
     ([((''example.com.'', ''www.example.com.'', ''A''),
        \<lparr>RRSet_Type = ''A'', RRSet_TTL = 300,
         RRSet_Records = [\<lparr>Content = [Any_string ''1.2.3.4''], Enabled = True\<rparr>]\<rparr>)], []) =
     (([], Some (VendorError ''404: record is not found'')),
      [Address ''www.example.com.'' 300000000000 ''1.2.3.4'',
       Address ''ftp.example.com.'' 300000000000 ''9.9.9.9''],
      ([((''example.com.'', ''www.example.com.'', ''A''),
         \<lparr>RRSet_Type = ''A'', RRSet_TTL = 300,
          RRSet_Records = [\<lparr>Content = [Any_string ''1.2.3.4''], Enabled = True\<rparr>]\<rparr>)],
       [Call_RRSet ''example.com.'' ''www.example.com.'' ''A'',
        Call_UpdateRRSet ''example.com.'' ''www.example.com.'' ''A''
          \<lparr>RRSet_Type = ''A'', RRSet_TTL = 300,
           RRSet_Records = [\<lparr>Content = [Any_string ''1.2.3.4''], Enabled = True\<rparr>]\<rparr>,
        Call_RRSet ''example.com.'' ''ftp.example.com.'' ''A'']))
   \<and> DeleteRecords mem_client ref_libdns ''example.com.''
     [Address ''www'' 300000000000 ''1.2.3.4'', Address ''ftp'' 300000000000 ''9.9.9.9'']
     ([((''example.com.'', ''www.example.com.'', ''A''),
        \<lparr>RRSet_Type = ''A'', RRSet_TTL = 300,
         RRSet_Records = [\<lparr>Content = [Any_string ''1.2.3.4''], Enabled = True\<rparr>]\<rparr>)], []) =
     (([], Some (FailedToDelete (Address ''ftp.example.com.'' 300000000000 ''9.9.9.9''))),
      [Address ''www.example.com.'' 300000000000 ''1.2.3.4'',
       Address ''ftp.example.com.'' 300000000000 ''9.9.9.9''],
      ([((''example.com.'', ''www.example.com.'', ''A''),
         \<lparr>RRSet_Type = ''A'', RRSet_TTL = 300, RRSet_Records = []\<rparr>)],
       [Call_DeleteRRSetRecord ''example.com.'' ''www.example.com.'' ''A'' ''1.2.3.4'',
        Call_DeleteRRSetRecord ''example.com.'' ''ftp.example.com.'' ''A'' ''9.9.9.9'']))"
  (is "?A \<and> ?S \<and> ?D")
proof -
  let ?www = "Address ''www.example.com.'' 300000000000 ''1.2.3.4''"
  let ?ftp = "Address ''ftp.example.com.'' 300000000000 ''9.9.9.9''"
  let ?records = "[Address ''www'' 300000000000 ''1.2.3.4'',
                   Address ''ftp'' 300000000000 ''9.9.9.9'']"
  let ?set = "\<lparr>RRSet_Type = ''A'', RRSet_TTL = 300,
               RRSet_Records = [\<lparr>Content = [Any_string ''1.2.3.4''], Enabled = True\<rparr>]\<rparr>"
  let ?s = "[((''example.com.'', ''www.example.com.'', ''A''), ?set)]"
  have a: "schedule (group_by_type ref_libdns
               (map (\<lambda>record. qualityRecordNames ref_libdns record ''example.com.'') ?records))
             [''A''] = [(''A'', ?www)] @ (''A'', ?ftp) # []
    \<and> AppendRecords_seq limited_client ref_libdns ''example.com.'' [(''A'', ?www)] []
          ((2, []), []) =
        (Inr [?www],
         ((0, ?s), [Call_RRSet ''example.com.'' ''www.example.com.'' ''A'',
                    Call_UpdateRRSet ''example.com.'' ''www.example.com.'' ''A'' ?set]))
    \<and> AppendRecords_body limited_client ref_libdns ''example.com.'' ''A'' ?ftp [?www]
          ((0, ?s), [Call_RRSet ''example.com.'' ''www.example.com.'' ''A'',
                     Call_UpdateRRSet ''example.com.'' ''www.example.com.'' ''A'' ?set]) =
        (Inl (VendorError ''429: too many requests''),
         ((0, ?s), [Call_RRSet ''example.com.'' ''www.example.com.'' ''A'',
                    Call_UpdateRRSet ''example.com.'' ''www.example.com.'' ''A'' ?set,
                    Call_RRSet ''example.com.'' ''ftp.example.com.'' ''A'']))"
    by (simp add: mem_eval run_eval ref_eval)
  have s: "map (\<lambda>record. qualityRecordNames ref_libdns record ''example.com.'') ?records =
             [?www] @ ?ftp # []
    \<and> SetRecords_loop mem_client ref_libdns ''example.com.'' [?www] [] (?s, []) =
        (Inr [?www],
         (?s, [Call_RRSet ''example.com.'' ''www.example.com.'' ''A'',
               Call_UpdateRRSet ''example.com.'' ''www.example.com.'' ''A'' ?set]))
    \<and> SetRecords_body mem_client ref_libdns ''example.com.'' ?ftp [?www]
          (?s, [Call_RRSet ''example.com.'' ''www.example.com.'' ''A'',
                Call_UpdateRRSet ''example.com.'' ''www.example.com.'' ''A'' ?set]) =
        (Inl (VendorError ''404: record is not found''),
         (?s, [Call_RRSet ''example.com.'' ''www.example.com.'' ''A'',
               Call_UpdateRRSet ''example.com.'' ''www.example.com.'' ''A'' ?set,
               Call_RRSet ''example.com.'' ''ftp.example.com.'' ''A'']))"
    by (simp add: mem_eval run_eval ref_eval)
  have d: "map (\<lambda>record. qualityRecordNames ref_libdns record ''example.com.'') ?records =
             [?www] @ ?ftp # []
    \<and> DeleteRecords_loop mem_client ref_libdns ''example.com.'' [?www] [] (?s, []) =
        (Inr [?www],
         ([((''example.com.'', ''www.example.com.'', ''A''),
            \<lparr>RRSet_Type = ''A'', RRSet_TTL = 300, RRSet_Records = []\<rparr>)],
          [Call_DeleteRRSetRecord ''example.com.'' ''www.example.com.'' ''A'' ''1.2.3.4'']))
    \<and> DeleteRecords_body mem_client ref_libdns ''example.com.'' ?ftp [?www]
          ([((''example.com.'', ''www.example.com.'', ''A''),
             \<lparr>RRSet_Type = ''A'', RRSet_TTL = 300, RRSet_Records = []\<rparr>)],
           [Call_DeleteRRSetRecord ''example.com.'' ''www.example.com.'' ''A'' ''1.2.3.4'']) =
        (Inl (FailedToDelete ?ftp),
         ([((''example.com.'', ''www.example.com.'', ''A''),
            \<lparr>RRSet_Type = ''A'', RRSet_TTL = 300, RRSet_Records = []\<rparr>)],
          [Call_DeleteRRSetRecord ''example.com.'' ''www.example.com.'' ''A'' ''1.2.3.4'',
           Call_DeleteRRSetRecord ''example.com.'' ''ftp.example.com.'' ''A'' ''9.9.9.9'']))"
    by (simp add: mem_eval run_eval ref_eval)
  from batch_stops_at_first_failure [THEN conjunct1, THEN mp, OF a]
  have ?A by (simp add: run_eval ref_eval)
  moreover
  from batch_stops_at_first_failure [THEN conjunct2, THEN conjunct1, THEN mp, OF s]
  have ?S by (simp add: run_eval ref_eval)
  moreover
  from batch_stops_at_first_failure [THEN conjunct2, THEN conjunct2, THEN mp, OF d]
  have ?D by (simp add: run_eval ref_eval)
  ultimately show ?thesis by blast
qed

text \<open>
  Claim C9 as stated fails: \<^verbatim>\<open>SetRecords\<close> on two records, the second of which the vendor
  has no set for, has pushed the set of the first when it fails, and returns no record
  at all with the error.
\<close>

theorem failed_batch_returns_no_records:
  "fst (SetRecords mem_client ref_libdns ''example.com.''
     [Address ''www'' 300000000000 ''1.2.3.4'', Address ''ftp'' 300000000000 ''9.9.9.9'']
     ([((''example.com.'', ''www.example.com.'', ''A''),
        \<lparr>RRSet_Type = ''A'', RRSet_TTL = 300,
         RRSet_Records = [\<lparr>Content = [Any_string ''5.6.7.8''], Enabled = True\<rparr>]\<rparr>)], [])) =
     ([], Some (VendorError ''404: record is not found''))
   \<and> snd (snd (snd (SetRecords mem_client ref_libdns ''example.com.''
     [Address ''www'' 300000000000 ''1.2.3.4'', Address ''ftp'' 300000000000 ''9.9.9.9'']
     ([((''example.com.'', ''www.example.com.'', ''A''),
        \<lparr>RRSet_Type = ''A'', RRSet_TTL = 300,
         RRSet_Records = [\<lparr>Content = [Any_string ''5.6.7.8''], Enabled = True\<rparr>]\<rparr>)], [])))) =
     [Call_RRSet ''example.com.'' ''www.example.com.'' ''A'',
      Call_UpdateRRSet ''example.com.'' ''www.example.com.'' ''A''
        \<lparr>RRSet_Type = ''A'', RRSet_TTL = 300,
         RRSet_Records = [\<lparr>Content = [Any_string ''5.6.7.8''], Enabled = True\<rparr>,
                          \<lparr>Content = [Any_string ''1.2.3.4''], Enabled = True\<rparr>]\<rparr>,
      Call_RRSet ''example.com.'' ''ftp.example.com.'' ''A'']"
  by (simp add: op_eval mem_eval run_eval ref_eval)

subsection \<open>C10: the caller's slice\<close>



end
